theory Spec2Isabelle
  imports Complex_Main "HOL-Library.Char_ord" "HOL-Library.List_Lexorder" "HOL-Library.Multiset"
    "HOL-Library.AList"
begin

section \<open>JavaScript values used by the catalogue service\<close>

text \<open>
  The service is JavaScript. Its numbers are IEEE doubles; the model keeps the three
  non-finite values apart and represents every finite number by the rational it denotes.
  Comparison, \<open>Math.min\<close>, \<open>Math.max\<close> and truthiness are exact on that representation.
  Arithmetic (\<open>+\<close>, \<open>/\<close>, \<open>toFixed\<close>) is modelled without rounding, which agrees with the
  doubles as long as the values are integers below \<open>2^53\<close> or short decimals.

  Definitions carry the names of the source. Where a name of the source is taken in
  Isabelle it gets a prime (\<open>fields'\<close>, \<open>term'\<close>, \<open>id'\<close>, \<open>min'\<close>, \<open>max'\<close>, \<open>sort'\<close>); a field
  name shared by several records is written with the record in front
  (\<open>query.page\<close>, \<open>pagination.page\<close>).
\<close>

datatype jsnum = NaN | NegInf | Fin rat | PosInf

fun num_lt :: "jsnum \<Rightarrow> jsnum \<Rightarrow> bool" where
  "num_lt NaN _ = False"
| "num_lt _ NaN = False"
| "num_lt (Fin a) (Fin b) = (a < b)"
| "num_lt NegInf NegInf = False"
| "num_lt NegInf _ = True"
| "num_lt _ NegInf = False"
| "num_lt PosInf _ = False"
| "num_lt _ PosInf = True"

definition num_gt :: "jsnum \<Rightarrow> jsnum \<Rightarrow> bool" where
  "num_gt a b = num_lt b a"

fun num_truthy :: "jsnum \<Rightarrow> bool" where
  "num_truthy NaN = False"
| "num_truthy (Fin r) = (r \<noteq> 0)"
| "num_truthy _ = True"

fun isNaN :: "jsnum \<Rightarrow> bool" where
  "isNaN NaN = True"
| "isNaN _ = False"

fun isFinite :: "jsnum \<Rightarrow> bool" where
  "isFinite (Fin _) = True"
| "isFinite _ = False"

text \<open>\<open>Math.min(a, b)\<close> and \<open>Math.max(a, b)\<close>: \<open>NaN\<close> is contagious.\<close>

definition Math_min :: "jsnum \<Rightarrow> jsnum \<Rightarrow> jsnum" where
  "Math_min a b = (if isNaN a \<or> isNaN b then NaN else if num_lt b a then b else a)"

definition Math_max :: "jsnum \<Rightarrow> jsnum \<Rightarrow> jsnum" where
  "Math_max a b = (if isNaN a \<or> isNaN b then NaN else if num_lt a b then b else a)"

text \<open>The quotient \<open>a / b\<close> of two finite numbers, and \<open>Math.ceil\<close>.\<close>

definition num_div :: "rat \<Rightarrow> rat \<Rightarrow> jsnum" where
  "num_div a b =
     (if b = 0 then (if a = 0 then NaN else if 0 < a then PosInf else NegInf)
      else Fin (a / b))"

fun Math_ceil :: "jsnum \<Rightarrow> jsnum" where
  "Math_ceil (Fin r) = Fin (of_int \<lceil>r\<rceil>)"
| "Math_ceil x = x"

subsection \<open>Strings\<close>

text \<open>
  A string is a list of code units; the model covers the code units \<open>0..255\<close>.
  \<open>toLowerCase\<close> maps \<open>A..Z\<close> and the upper-case letters of the Latin-1 block to their
  lower-case forms. White space is what \<open>parseInt\<close>, \<open>parseFloat\<close> and \<open>trim\<close> skip.
\<close>

definition codeUnit :: "char \<Rightarrow> nat" where
  "codeUnit c = of_char c"

definition isUpperCase :: "char \<Rightarrow> bool" where
  "isUpperCase c =
     ((65 \<le> codeUnit c \<and> codeUnit c \<le> 90)
      \<or> (192 \<le> codeUnit c \<and> codeUnit c \<le> 222 \<and> codeUnit c \<noteq> 215))"

definition lowerChar :: "char \<Rightarrow> char" where
  "lowerChar c = (if isUpperCase c then char_of (codeUnit c + 32) else c)"

definition toLowerCase :: "string \<Rightarrow> string" where
  "toLowerCase s = map lowerChar s"

definition isWhiteSpace :: "char \<Rightarrow> bool" where
  "isWhiteSpace c = (codeUnit c \<in> {9, 10, 11, 12, 13, 32, 160})"

definition isDigit :: "char \<Rightarrow> bool" where
  "isDigit c = (48 \<le> codeUnit c \<and> codeUnit c \<le> 57)"

definition isHexDigit :: "char \<Rightarrow> bool" where
  "isHexDigit c = (isDigit c \<or> (65 \<le> codeUnit c \<and> codeUnit c \<le> 70) \<or> (97 \<le> codeUnit c \<and> codeUnit c \<le> 102))"

definition digitValue :: "char \<Rightarrow> nat" where
  "digitValue c =
     (if isDigit c then codeUnit c - 48
      else if 97 \<le> codeUnit c then codeUnit c - 87
      else codeUnit c - 55)"

text \<open>The value of a digit string in a radix, most significant digit first.\<close>

definition digitsValue :: "nat \<Rightarrow> string \<Rightarrow> nat" where
  "digitsValue radix ds = foldl (\<lambda>acc c. acc * radix + digitValue c) 0 ds"

text \<open>\<open>Array.prototype.join\<close> on strings.\<close>

fun join :: "string \<Rightarrow> string list \<Rightarrow> string" where
  "join sep [] = []"
| "join sep [x] = x"
| "join sep (x # y # ys) = x @ sep @ join sep (y # ys)"

text \<open>
  \<open>String.prototype.includes\<close>: \<open>t\<close> occurs in \<open>s\<close> as a contiguous block. \<open>startsWith\<close>
  is the prefix test it is built from.
\<close>

fun startsWith :: "string \<Rightarrow> string \<Rightarrow> bool" where
  "startsWith s [] = True"
| "startsWith [] (c # t) = False"
| "startsWith (d # s) (c # t) = (d = c \<and> startsWith s t)"

fun str_includes :: "string \<Rightarrow> string \<Rightarrow> bool" where
  "str_includes [] t = (t = [])"
| "str_includes (c # s) t = (startsWith (c # s) t \<or> str_includes s t)"

subsection \<open>\<open>parseInt\<close> and \<open>parseFloat\<close>\<close>

text \<open>
  \<open>parseInt(string)\<close> without a radix: skip white space, read a sign, switch to radix 16
  after \<open>0x\<close> or \<open>0X\<close>, read the longest run of digits. No digit gives \<open>NaN\<close>, here
  \<open>None\<close>. The result is an integer, kept as \<open>int\<close>; it is the number JavaScript
  computes whenever the digits denote an integer below \<open>2^53\<close>.
\<close>

definition parseInt :: "string \<Rightarrow> int option" where
  "parseInt input =
     (let s = dropWhile isWhiteSpace input;
          sign = (if s \<noteq> [] \<and> hd s = CHR ''-'' then - 1 else 1);
          s1 = (if s \<noteq> [] \<and> (hd s = CHR ''+'' \<or> hd s = CHR ''-'') then tl s else s);
          hex = (take 2 s1 = ''0x'' \<or> take 2 s1 = ''0X'');
          s2 = (if hex then drop 2 s1 else s1);
          z = takeWhile (if hex then isHexDigit else isDigit) s2
      in if z = [] then None
         else Some (sign * int (digitsValue (if hex then 16 else 10) z)))"

text \<open>
  \<open>parseFloat(string)\<close>: skip white space, read a sign, then either \<open>Infinity\<close> or the
  longest prefix that is a decimal literal: digits, an optional fraction, an optional
  exponent. An exponent marker without digits is not part of the literal.
\<close>

definition exponentPart :: "string \<Rightarrow> int" where
  "exponentPart s =
     (if s \<noteq> [] \<and> (hd s = CHR ''e'' \<or> hd s = CHR ''E'') then
        (let r = tl s;
             neg = (r \<noteq> [] \<and> hd r = CHR ''-'');
             r1 = (if r \<noteq> [] \<and> (hd r = CHR ''+'' \<or> hd r = CHR ''-'') then tl r else r);
             ds = takeWhile isDigit r1
         in if ds = [] then 0
            else if neg then - int (digitsValue 10 ds) else int (digitsValue 10 ds))
      else 0)"

definition scale10 :: "rat \<Rightarrow> int \<Rightarrow> rat" where
  "scale10 r e = (if 0 \<le> e then r * 10 ^ nat e else r / 10 ^ nat (- e))"

definition parseFloat :: "string \<Rightarrow> jsnum" where
  "parseFloat input =
     (let s = dropWhile isWhiteSpace input;
          neg = (s \<noteq> [] \<and> hd s = CHR ''-'');
          s1 = (if s \<noteq> [] \<and> (hd s = CHR ''+'' \<or> hd s = CHR ''-'') then tl s else s)
      in if startsWith s1 ''Infinity'' then (if neg then NegInf else PosInf)
         else
           (let ip = takeWhile isDigit s1;
                r1 = dropWhile isDigit s1;
                dot = (r1 \<noteq> [] \<and> hd r1 = CHR ''.'');
                fp = (if dot then takeWhile isDigit (tl r1) else []);
                r2 = (if dot then dropWhile isDigit (tl r1) else r1)
            in if ip = [] \<and> fp = [] then NaN
               else
                 (let m = of_nat (digitsValue 10 ip)
                          + of_nat (digitsValue 10 fp) / 10 ^ length fp;
                      v = scale10 m (exponentPart r2)
                  in Fin (if neg then - v else v))))"

section \<open>Raw query input\<close>

text \<open>
  The query-string parser hands every key either a string or an array of strings; a key
  that is not in the URL is \<open>undefined\<close>, here \<open>None\<close>.
\<close>

datatype qvalue = QStr string | QArr "string list"

record query =
  page :: "qvalue option"
  limit :: "qvalue option"
  category :: "qvalue option"
  minPrice :: "qvalue option"
  maxPrice :: "qvalue option"
  inStock :: "qvalue option"
  q :: "qvalue option"
  search :: "qvalue option"
  fields' :: "qvalue option"
  sortBy :: "qvalue option"
  sortOrder :: "qvalue option"

definition emptyQuery :: query where
  "emptyQuery = \<lparr>page = None, limit = None, category = None, minPrice = None,
     maxPrice = None, inStock = None, q = None, search = None, fields' = None,
     sortBy = None, sortOrder = None\<rparr>"

text \<open>Truthiness and \<open>ToString\<close> of a raw value: an array joins its elements with commas.\<close>

fun truthy :: "qvalue option \<Rightarrow> bool" where
  "truthy None = False"
| "truthy (Some (QStr s)) = (s \<noteq> [])"
| "truthy (Some (QArr xs)) = True"

fun toString :: "qvalue option \<Rightarrow> string" where
  "toString None = ''undefined''"
| "toString (Some (QStr s)) = s"
| "toString (Some (QArr xs)) = join '','' xs"

section \<open>QueryProcessor: parsing\<close>

text \<open>A thrown \<open>Error\<close> is the left summand, carrying its message.\<close>

datatype error = Error string

record pagination =
  page :: int
  limit :: int
  skip :: int
  offset :: int

text \<open>\<open>parseInt(x) || d\<close>: \<open>NaN\<close> and \<open>0\<close> are falsy, so both give the default.\<close>

definition orDefault :: "int option \<Rightarrow> int \<Rightarrow> int" where
  "orDefault v d = (case v of None \<Rightarrow> d | Some n \<Rightarrow> if n = 0 then d else n)"

definition parsePagination :: "query \<Rightarrow> error + pagination" where
  "parsePagination query =
     (let page = orDefault (parseInt (toString (query.page query))) 1;
          limit = orDefault (parseInt (toString (query.limit query))) 10;
          skip = (page - 1) * limit
      in if page < 1 then Inl (Error ''Page number must be greater than 0'')
         else if limit < 1 \<or> 100 < limit then Inl (Error ''Limit must be between 1 and 100'')
         else Inr \<lparr>page = page, limit = limit, skip = skip, offset = skip\<rparr>)"

text \<open>
  \<open>parseFilters\<close> runs its three blocks in order and the first \<open>throw\<close> ends it. A
  price bound is stored as parsed; the range check reads the stored bounds through their
  truthiness, as \<open>filters.price.min && filters.price.max && ...\<close> does.
\<close>

record priceRange =
  min' :: "jsnum option"
  max' :: "jsnum option"

record filters =
  category :: "string list option"
  price :: "priceRange option"
  inStock :: "bool option"

definition validCategories :: "string list" where
  "validCategories =
     [''electronics'', ''kitchen'', ''clothing'', ''books'', ''sports'', ''toys'', ''other'']"

definition parseCategory :: "qvalue option \<Rightarrow> error + string list option" where
  "parseCategory c =
     (if truthy c then
        (let categories = (case c of Some (QArr xs) \<Rightarrow> map toLowerCase xs
                                   | Some (QStr s) \<Rightarrow> [toLowerCase s]
                                   | None \<Rightarrow> []);
             invalidCategories = filter (\<lambda>cat. cat \<notin> set validCategories) categories
         in if 0 < length invalidCategories
            then Inl (Error (''Invalid categories: '' @ join '', '' invalidCategories
                             @ ''. Valid categories: '' @ join '', '' validCategories))
            else Inr (Some categories))
      else Inr None)"

definition parseBound :: "qvalue option \<Rightarrow> string \<Rightarrow> error + jsnum option" where
  "parseBound v msg =
     (if truthy v then
        (let p = parseFloat (toString v)
         in if isNaN p \<or> num_lt p (Fin 0) then Inl (Error msg) else Inr (Some p))
      else Inr None)"

fun bothSetAndGreater :: "jsnum option \<Rightarrow> jsnum option \<Rightarrow> bool" where
  "bothSetAndGreater (Some a) (Some b) = (num_truthy a \<and> num_truthy b \<and> num_gt a b)"
| "bothSetAndGreater _ _ = False"

definition parsePrice :: "query \<Rightarrow> error + priceRange option" where
  "parsePrice query =
     (if truthy (minPrice query) \<or> truthy (maxPrice query) then
        (case parseBound (minPrice query) ''minPrice must be a valid positive number'' of
           Inl e \<Rightarrow> Inl e
         | Inr mn \<Rightarrow>
            (case parseBound (maxPrice query) ''maxPrice must be a valid positive number'' of
               Inl e \<Rightarrow> Inl e
             | Inr mx \<Rightarrow>
                 if bothSetAndGreater mn mx
                 then Inl (Error ''minPrice cannot be greater than maxPrice'')
                 else Inr (Some \<lparr>min' = mn, max' = mx\<rparr>)))
      else Inr None)"

definition parseInStock :: "qvalue option \<Rightarrow> error + bool option" where
  "parseInStock v =
     (case v of
        None \<Rightarrow> Inr None
      | Some x \<Rightarrow>
          if x = QStr ''true'' then Inr (Some True)
          else if x = QStr ''false'' then Inr (Some False)
          else Inl (Error (''inStock must be '' @ [CHR 0x22] @ ''true'' @ [CHR 0x22]
                           @ '' or '' @ [CHR 0x22] @ ''false'' @ [CHR 0x22])))"

definition parseFilters :: "query \<Rightarrow> error + filters" where
  "parseFilters query =
     (case parseCategory (query.category query) of
        Inl e \<Rightarrow> Inl e
      | Inr c \<Rightarrow>
         (case parsePrice query of
            Inl e \<Rightarrow> Inl e
          | Inr p \<Rightarrow>
             (case parseInStock (query.inStock query) of
                Inl e \<Rightarrow> Inl e
              | Inr s \<Rightarrow> Inr \<lparr>category = c, price = p, inStock = s\<rparr>)))"

text \<open>
  \<open>parseSorting\<close>: \<open>validSortFields.includes(query.sortBy)\<close> compares with strict equality,
  so an array never passes.
\<close>

record sortSpec =
  field :: string
  order :: string

definition validSortFields :: "string list" where
  "validSortFields = [''name'', ''price'', ''category'', ''inStock'', ''createdAt'', ''updatedAt'']"

definition parseSorting :: "query \<Rightarrow> error + sortSpec" where
  "parseSorting query =
     (if truthy (sortBy query) then
        (case sortBy query of
           Some (QStr s) \<Rightarrow>
             if s \<in> set validSortFields
             then Inr \<lparr>field = s,
                       order = (if sortOrder query = Some (QStr ''desc'') then ''desc'' else ''asc'')\<rparr>
             else Inl (Error (''Invalid sortBy field. Valid fields: '' @ join '', '' validSortFields))
         | _ \<Rightarrow> Inl (Error (''Invalid sortBy field. Valid fields: '' @ join '', '' validSortFields)))
      else Inr \<lparr>field = ''createdAt'', order = ''desc''\<rparr>)"

text \<open>
  \<open>parseSearch\<close>: the term is trimmed, length-checked and lower-cased; \<open>fields\<close> is split at
  commas. An array has neither \<open>trim\<close> nor \<open>split\<close>: the call throws a \<open>TypeError\<close>. With no
  term the result is the empty object: \<open>term\<close> is \<open>undefined\<close> and \<open>fields\<close> is never read.
\<close>

record searchSpec =
  term' :: "string option"
  fields' :: "string list"

definition trim :: "string \<Rightarrow> string" where
  "trim s = rev (dropWhile isWhiteSpace (rev (dropWhile isWhiteSpace s)))"

fun splitAt :: "char \<Rightarrow> string \<Rightarrow> string list" where
  "splitAt sep [] = [[]]"
| "splitAt sep (c # s) =
     (if c = sep then [] # splitAt sep s
      else (case splitAt sep s of [] \<Rightarrow> [[c]] | w # ws \<Rightarrow> (c # w) # ws))"

definition parseSearch :: "query \<Rightarrow> error + searchSpec" where
  "parseSearch query =
     (if truthy (q query) \<or> truthy (query.search query) then
        (case (if truthy (q query) then q query else query.search query) of
           Some (QStr s) \<Rightarrow>
             (let searchTerm = trim s
              in if length searchTerm < 2
                 then Inl (Error ''Search term must be at least 2 characters long'')
                 else if 100 < length searchTerm
                 then Inl (Error ''Search term must be less than 100 characters'')
                 else
                   (case query.fields' query of
                      Some (QArr fs) \<Rightarrow> Inl (Error ''query.fields.split is not a function'')
                    | Some (QStr f) \<Rightarrow>
                        Inr \<lparr>term' = Some (toLowerCase searchTerm),
                             fields' = (if f = [] then [''name'', ''description'']
                                        else splitAt (CHR '','') f)\<rparr>
                    | None \<Rightarrow>
                        Inr \<lparr>term' = Some (toLowerCase searchTerm),
                             fields' = [''name'', ''description'']\<rparr>))
         | _ \<Rightarrow> Inl (Error ''(query.q || query.search).trim is not a function''))
      else Inr \<lparr>term' = None, fields' = []\<rparr>)"

section \<open>Products and the QueryProcessor transformations\<close>

text \<open>
  A product of the store has passed the creation and update validation: its text fields
  are strings, its price is a finite number, \<open>inStock\<close> is a boolean. \<open>product[field]\<close>
  reads one of the eight own fields by name and is \<open>undefined\<close> for any other name;
  properties inherited from \<open>Object.prototype\<close> are not modelled.
\<close>

record product =
  id' :: string
  name :: string
  description :: string
  price :: rat
  category :: string
  inStock :: bool
  createdAt :: string
  updatedAt :: string

datatype jsval = VStr string | VNum rat | VBool bool | VUndefined

definition getField :: "product \<Rightarrow> string \<Rightarrow> jsval" where
  "getField p f =
     (if f = ''id'' then VStr (id' p)
      else if f = ''name'' then VStr (name p)
      else if f = ''description'' then VStr (description p)
      else if f = ''price'' then VNum (product.price p)
      else if f = ''category'' then VStr (product.category p)
      else if f = ''inStock'' then VBool (product.inStock p)
      else if f = ''createdAt'' then VStr (createdAt p)
      else if f = ''updatedAt'' then VStr (updatedAt p)
      else VUndefined)"

fun val_truthy :: "jsval \<Rightarrow> bool" where
  "val_truthy (VStr s) = (s \<noteq> [])"
| "val_truthy (VNum r) = (r \<noteq> 0)"
| "val_truthy (VBool b) = b"
| "val_truthy VUndefined = False"

text \<open>
  \<open>value.toString()\<close>. The decimal rendering of a number is the runtime's; it is the
  parameter \<open>numToString\<close> of everything that stringifies a field.
\<close>

fun val_toString :: "(rat \<Rightarrow> string) \<Rightarrow> jsval \<Rightarrow> string" where
  "val_toString numToString (VStr s) = s"
| "val_toString numToString (VNum r) = numToString r"
| "val_toString numToString (VBool b) = (if b then ''true'' else ''false'')"
| "val_toString numToString VUndefined = ''undefined''"

subsection \<open>applyFilters\<close>

definition passesFilters :: "filters \<Rightarrow> product \<Rightarrow> bool" where
  "passesFilters fs p =
     (if (case filters.category fs of
            Some cs \<Rightarrow> product.category p \<notin> set cs | None \<Rightarrow> False) then False
      else if (case filters.price fs of
                 Some pr \<Rightarrow> (case min' pr of
                               Some m \<Rightarrow> num_truthy m \<and> num_lt (Fin (product.price p)) m
                             | None \<Rightarrow> False)
               | None \<Rightarrow> False) then False
      else if (case filters.price fs of
                 Some pr \<Rightarrow> (case max' pr of
                               Some m \<Rightarrow> num_truthy m \<and> num_gt (Fin (product.price p)) m
                             | None \<Rightarrow> False)
               | None \<Rightarrow> False) then False
      else if (case filters.inStock fs of
                 Some b \<Rightarrow> product.inStock p \<noteq> b | None \<Rightarrow> False) then False
      else True)"

definition applyFilters :: "product list \<Rightarrow> filters \<Rightarrow> product list" where
  "applyFilters products fs = filter (passesFilters fs) products"

subsection \<open>applySearch\<close>

definition term_set :: "searchSpec \<Rightarrow> bool" where
  "term_set s = (case term' s of Some t \<Rightarrow> t \<noteq> [] | None \<Rightarrow> False)"

definition fieldMatches :: "(rat \<Rightarrow> string) \<Rightarrow> string \<Rightarrow> product \<Rightarrow> string \<Rightarrow> bool" where
  "fieldMatches numToString t p f =
     (let fieldValue = getField p f
      in val_truthy fieldValue
         \<and> str_includes (toLowerCase (val_toString numToString fieldValue)) t)"

definition applySearch :: "(rat \<Rightarrow> string) \<Rightarrow> product list \<Rightarrow> searchSpec \<Rightarrow> product list" where
  "applySearch numToString products s =
     (case term' s of
        None \<Rightarrow> products
      | Some t \<Rightarrow>
          if t = [] then products
          else filter (\<lambda>p. list_ex (fieldMatches numToString t p) (searchSpec.fields' s)) products)"

subsection \<open>applySorting\<close>

text \<open>
  The comparator reads the same field of both products, so its operands have the same
  type; the relational operators are modelled on operands of one type, and \<open>undefined\<close>
  is neither greater nor less than anything. Strings compare by code units.
\<close>

fun val_gt :: "jsval \<Rightarrow> jsval \<Rightarrow> bool" where
  "val_gt (VStr a) (VStr b) = (b < a)"
| "val_gt (VNum a) (VNum b) = (b < a)"
| "val_gt (VBool a) (VBool b) = (a \<and> \<not> b)"
| "val_gt _ _ = False"

definition val_lt :: "jsval \<Rightarrow> jsval \<Rightarrow> bool" where
  "val_lt a b = val_gt b a"

fun isString :: "jsval \<Rightarrow> bool" where
  "isString (VStr _) = True"
| "isString _ = False"

fun val_toLowerCase :: "jsval \<Rightarrow> jsval" where
  "val_toLowerCase (VStr s) = VStr (toLowerCase s)"
| "val_toLowerCase v = v"

definition compareProducts :: "sortSpec \<Rightarrow> product \<Rightarrow> product \<Rightarrow> int" where
  "compareProducts spec a b =
     (let aValue0 = getField a (field spec);
          bValue0 = getField b (field spec);
          aValue = (if isString aValue0 then val_toLowerCase aValue0 else aValue0);
          bValue = (if isString aValue0 then val_toLowerCase bValue0 else bValue0)
      in if order spec = ''desc''
         then (if val_gt bValue aValue then 1 else if val_lt bValue aValue then - 1 else 0)
         else (if val_gt aValue bValue then 1 else if val_lt aValue bValue then - 1 else 0))"

text \<open>
  \<open>Array.prototype.sort(compare)\<close> is a stable sort: with a consistent comparator its
  result is the one that stable insertion computes.
\<close>

fun insertSorted :: "('a \<Rightarrow> 'a \<Rightarrow> int) \<Rightarrow> 'a \<Rightarrow> 'a list \<Rightarrow> 'a list" where
  "insertSorted cmp x [] = [x]"
| "insertSorted cmp x (y # ys) =
     (if cmp x y \<le> 0 then x # y # ys else y # insertSorted cmp x ys)"

definition sortWith :: "('a \<Rightarrow> 'a \<Rightarrow> int) \<Rightarrow> 'a list \<Rightarrow> 'a list" where
  "sortWith cmp xs = foldr (insertSorted cmp) xs []"

definition sortedProducts :: "product list \<Rightarrow> sortSpec \<Rightarrow> product list" where
  "sortedProducts products spec = sortWith (compareProducts spec) products"

subsection \<open>applyPagination\<close>

text \<open>\<open>Array.prototype.slice(start, end)\<close>: negative indices count from the end.\<close>

definition slice :: "'a list \<Rightarrow> int \<Rightarrow> int \<Rightarrow> 'a list" where
  "slice xs startIndex endIndex =
     (let len = int (length xs);
          k = (if startIndex < 0 then max (len + startIndex) 0 else min startIndex len);
          final = (if endIndex < 0 then max (len + endIndex) 0 else min endIndex len)
      in take (nat (final - k)) (drop (nat k) xs))"

record pageInfo =
  currentPage :: int
  totalPages :: jsnum
  totalItems :: nat
  itemsPerPage :: int
  hasNextPage :: bool
  hasPrevPage :: bool

record page =
  data :: "product list"
  pagination :: pageInfo

definition applyPagination :: "product list \<Rightarrow> pagination \<Rightarrow> page" where
  "applyPagination products pg =
     (let startIndex = skip pg;
          endIndex = startIndex + pagination.limit pg
      in \<lparr>data = slice products startIndex endIndex,
          pagination = \<lparr>
            currentPage = pagination.page pg,
            totalPages = Math_ceil (num_div (of_nat (length products)) (of_int (pagination.limit pg))),
            totalItems = length products,
            itemsPerPage = pagination.limit pg,
            hasNextPage = (endIndex < int (length products)),
            hasPrevPage = (1 < pagination.page pg)\<rparr>\<rparr>)"

section \<open>Arrays as objects: the product-listing handler\<close>

text \<open>
  The functions above give the content of the array each operation returns. Which array
  object is returned, and what happens to the one passed in, needs the arrays as
  references into a store: \<open>filter\<close>, \<open>slice\<close> and the spread \<open>[...products]\<close> allocate a
  new array, \<open>sort\<close> rewrites the array it is called on and returns it, and \<open>applySearch\<close>
  without a term returns its argument. The store also keeps a history of the
  QueryProcessor calls, each with the content of the array handed to it.
\<close>

type_synonym ref = nat

datatype call = Call string "product list"

record heap =
  cells :: "ref \<Rightarrow> product list"
  fresh :: ref
  calls :: "call list"

definition alloc :: "heap \<Rightarrow> product list \<Rightarrow> heap \<times> ref" where
  "alloc h xs = (h\<lparr>cells := (cells h)(fresh h := xs), fresh := Suc (fresh h)\<rparr>, fresh h)"

definition logCall :: "string \<Rightarrow> ref \<Rightarrow> heap \<Rightarrow> heap" where
  "logCall f r h = h\<lparr>calls := calls h @ [Call f (cells h r)]\<rparr>"

definition applySearch_ref ::
    "(rat \<Rightarrow> string) \<Rightarrow> heap \<Rightarrow> ref \<Rightarrow> searchSpec \<Rightarrow> heap \<times> ref" where
  "applySearch_ref numToString h products s =
     (let h1 = logCall ''applySearch'' products h
      in if \<not> term_set s then (h1, products)
         else alloc h1 (applySearch numToString (cells h1 products) s))"

definition applyFilters_ref :: "heap \<Rightarrow> ref \<Rightarrow> filters \<Rightarrow> heap \<times> ref" where
  "applyFilters_ref h products fs =
     (let h1 = logCall ''applyFilters'' products h
      in alloc h1 (applyFilters (cells h1 products) fs))"

definition applySorting :: "heap \<Rightarrow> ref \<Rightarrow> sortSpec \<Rightarrow> heap \<times> ref" where
  "applySorting h products spec =
     (let h1 = logCall ''applySorting'' products h
      in (h1\<lparr>cells := (cells h1)(products := sortedProducts (cells h1 products) spec)\<rparr>,
          products))"

definition applyPagination_ref :: "heap \<Rightarrow> ref \<Rightarrow> pagination \<Rightarrow> heap \<times> ref \<times> pageInfo" where
  "applyPagination_ref h products pg =
     (let h1 = logCall ''applyPagination'' products h;
          result = applyPagination (cells h1 products) pg;
          (h2, dataRef) = alloc h1 (data result)
      in (h2, dataRef, page.pagination result))"

text \<open>
  What \<open>validateProductQuery\<close> leaves on the request, and the \<open>GET /api/products\<close>
  handler. The handler answers with the page; the envelope that \<open>buildListResponse\<close>
  wraps around it repeats the request and adds constants.
\<close>

record request =
  pagination :: pagination
  filters :: filters
  search :: searchSpec
  sort' :: sortSpec

definition listProducts ::
    "(rat \<Rightarrow> string) \<Rightarrow> heap \<Rightarrow> ref \<Rightarrow> request \<Rightarrow> heap \<times> page" where
  "listProducts numToString h products req =
     (let (h0, processed0) = alloc h (cells h products);
          (h1, processed1) =
             (if term_set (request.search req)
              then applySearch_ref numToString h0 processed0 (request.search req)
              else (h0, processed0));
          (h2, processed2) = applyFilters_ref h1 processed1 (request.filters req);
          (h3, processed3) = applySorting h2 processed2 (sort' req);
          (h4, dataRef, info) = applyPagination_ref h3 processed3 (request.pagination req)
      in (h4, \<lparr>data = cells h4 dataRef, pagination = info\<rparr>))"

text \<open>
  The composition order as the specification words it: filter, then search, then sort,
  then paginate. It is compared with the history the handler leaves.
\<close>

definition specOrderCalls :: "(rat \<Rightarrow> string) \<Rightarrow> product list \<Rightarrow> request \<Rightarrow> call list" where
  "specOrderCalls numToString P req =
     (let filtered = applyFilters P (request.filters req);
          found = applySearch numToString filtered (request.search req);
          ordered = sortedProducts found (sort' req)
      in [Call ''applyFilters'' P, Call ''applySearch'' filtered,
          Call ''applySorting'' found, Call ''applyPagination'' ordered])"

definition handedTo :: "string \<Rightarrow> call list \<Rightarrow> product list list" where
  "handedTo f cs = map (\<lambda>c. case c of Call g xs \<Rightarrow> xs) (filter (\<lambda>c. case c of Call g xs \<Rightarrow> g = f) cs)"

section \<open>StatsCalculator: statistics by category\<close>

text \<open>
  \<open>categoryStats\<close> is a plain object used as a dictionary: its own keys in insertion order
  with their entries. \<open>toFixed(2)\<close> followed by \<open>parseFloat\<close> rounds to two decimals, the
  half away from zero, and leaves a non-finite number as it is.
\<close>

record productSummary =
  id' :: string
  name :: string
  price :: rat
  inStock :: bool

record categoryStats =
  count :: int
  inStock :: int
  outOfStock :: int
  totalValue :: rat
  averagePrice :: jsnum
  minPrice :: jsnum
  maxPrice :: jsnum
  products :: "productSummary list"
  stockPercentage :: "jsnum option"

definition round2 :: "rat \<Rightarrow> rat" where
  "round2 r =
     (if 10 ^ 21 \<le> \<bar>r\<bar> then r
      else if r < 0 then - (of_int \<lfloor>- r * 100 + 1 / 2\<rfloor> / 100)
      else of_int \<lfloor>r * 100 + 1 / 2\<rfloor> / 100)"

fun num_round2 :: "jsnum \<Rightarrow> jsnum" where
  "num_round2 (Fin r) = Fin (round2 r)"
| "num_round2 x = x"

fun num_times100 :: "jsnum \<Rightarrow> jsnum" where
  "num_times100 (Fin r) = Fin (r * 100)"
| "num_times100 x = x"

definition newCategoryStats :: categoryStats where
  "newCategoryStats =
     \<lparr>count = 0, inStock = 0, outOfStock = 0, totalValue = 0, averagePrice = Fin 0,
      minPrice = PosInf, maxPrice = NegInf, products = [], stockPercentage = None\<rparr>"

definition accumulate :: "product \<Rightarrow> categoryStats \<Rightarrow> categoryStats" where
  "accumulate p stats =
     stats\<lparr>count := count stats + 1,
           inStock := categoryStats.inStock stats + (if product.inStock p then 1 else 0),
           outOfStock := outOfStock stats + (if product.inStock p then 0 else 1),
           totalValue := totalValue stats + product.price p,
           minPrice := Math_min (minPrice stats) (Fin (product.price p)),
           maxPrice := Math_max (maxPrice stats) (Fin (product.price p)),
           products := products stats
             @ [\<lparr>id' = product.id' p, name = product.name p,
                  price = product.price p, inStock = product.inStock p\<rparr>]\<rparr>"

definition hasKey :: "string \<Rightarrow> (string \<times> 'a) list \<Rightarrow> bool" where
  "hasKey k tbl = (k \<in> set (map fst tbl))"

definition updateEntry :: "string \<Rightarrow> ('a \<Rightarrow> 'a) \<Rightarrow> (string \<times> 'a) list \<Rightarrow> (string \<times> 'a) list" where
  "updateEntry k f tbl = map (\<lambda>(k', v). if k' = k then (k', f v) else (k', v)) tbl"

definition addProduct :: "(string \<times> categoryStats) list \<Rightarrow> product \<Rightarrow> (string \<times> categoryStats) list" where
  "addProduct tbl product =
     (let category = product.category product;
          tbl1 = (if \<not> hasKey category tbl then tbl @ [(category, newCategoryStats)] else tbl)
      in updateEntry category (accumulate product) tbl1)"

definition finalizeCategory :: "categoryStats \<Rightarrow> categoryStats" where
  "finalizeCategory stats =
     stats\<lparr>averagePrice := num_round2 (num_div (totalValue stats) (of_int (count stats))),
           totalValue := round2 (totalValue stats),
           stockPercentage :=
             Some (num_round2 (num_times100
               (num_div (of_int (categoryStats.inStock stats)) (of_int (count stats))))),
           minPrice := (if minPrice stats = PosInf then Fin 0 else minPrice stats),
           maxPrice := (if maxPrice stats = NegInf then Fin 0 else maxPrice stats)\<rparr>"

definition calculateCategoryStats :: "product list \<Rightarrow> (string \<times> categoryStats) list" where
  "calculateCategoryStats productList =
     map (\<lambda>(category, stats). (category, finalizeCategory stats))
       (foldl addProduct [] productList)"

section \<open>The error taxonomy\<close>

text \<open>
  \<open>CustomError\<close> and its four subclasses. An error object is its base fields plus what
  the subclass adds; \<open>errorType\<close> is fixed by the class. The constructor reads the clock
  and captures a stack trace: both are arguments here. \<open>toJSON\<close> reads \<open>NODE_ENV\<close>, also an
  argument.
\<close>

record customError =
  name :: string
  message :: string
  statusCode :: int
  errorCode :: string
  isOperational :: bool
  timestamp :: string
  stack :: string

datatype taxonomyError =
    CustomError customError
  | ValidationError customError "string list" "string option"
  | NotFoundError customError string "string option"
  | AuthenticationError customError string
  | AuthorizationError customError "string option" "string option"

fun base :: "taxonomyError \<Rightarrow> customError" where
  "base (CustomError b) = b"
| "base (ValidationError b details fld) = b"
| "base (NotFoundError b resource resourceId) = b"
| "base (AuthenticationError b reason) = b"
| "base (AuthorizationError b requiredPermission requiredRole) = b"

record clock =
  now :: string
  trace :: string

definition newBase :: "clock \<Rightarrow> string \<Rightarrow> string \<Rightarrow> int \<Rightarrow> string \<Rightarrow> bool \<Rightarrow> customError" where
  "newBase env className msg status errCode operational =
     \<lparr>name = className, message = msg, statusCode = status, errorCode = errCode,
      isOperational = operational, timestamp = now env, stack = trace env\<rparr>"

definition newCustomError :: "clock \<Rightarrow> string \<Rightarrow> int \<Rightarrow> string \<Rightarrow> taxonomyError" where
  "newCustomError env msg status errCode =
     CustomError (newBase env ''CustomError'' msg status errCode True)"

definition newValidationError :: "clock \<Rightarrow> string \<Rightarrow> string list \<Rightarrow> string option \<Rightarrow> taxonomyError" where
  "newValidationError env msg details fld =
     ValidationError (newBase env ''ValidationError'' msg 400 ''VALIDATION_ERROR'' True) details fld"

definition newNotFoundError :: "clock \<Rightarrow> string \<Rightarrow> string option \<Rightarrow> taxonomyError" where
  "newNotFoundError env resource resourceId =
     (let msg = (case resourceId of
                   Some i \<Rightarrow>
                     if i \<noteq> []
                     then resource @ '' with ID '' @ [CHR 0x27] @ i @ [CHR 0x27] @ '' not found''
                     else resource @ '' not found''
                 | None \<Rightarrow> resource @ '' not found'')
      in NotFoundError (newBase env ''NotFoundError'' msg 404 ''RESOURCE_NOT_FOUND'' True)
           resource resourceId)"

definition newAuthenticationError :: "clock \<Rightarrow> string \<Rightarrow> string \<Rightarrow> taxonomyError" where
  "newAuthenticationError env msg reason =
     AuthenticationError (newBase env ''AuthenticationError'' msg 401 ''AUTHENTICATION_ERROR'' True)
       reason"

definition newAuthorizationError ::
    "clock \<Rightarrow> string \<Rightarrow> string option \<Rightarrow> string option \<Rightarrow> taxonomyError" where
  "newAuthorizationError env msg requiredPermission requiredRole =
     AuthorizationError (newBase env ''AuthorizationError'' msg 403 ''AUTHORIZATION_ERROR'' True)
       requiredPermission requiredRole"

subsection \<open>Rendering\<close>

text \<open>
  A string or \<open>null\<close> used as a condition is falsy when it is \<open>null\<close> or empty.
  A rendered error is an object: its keys in insertion order, each with a JSON value. An
  object literal writes its properties from left to right, a spread writes the
  properties of the spread object, and writing a key that exists replaces its value.
\<close>

datatype json = JBool bool | JNum int | JStr string | JArr "json list"

type_synonym jsobject = "(string \<times> json) list"

definition spread :: "jsobject \<Rightarrow> jsobject \<Rightarrow> jsobject" where
  "spread obj src = foldl (\<lambda>acc (k, v). AList.update k v acc) obj src"

definition baseObject :: "customError \<Rightarrow> jsobject" where
  "baseObject e =
     [(''success'', JBool False),
      (''message'', JStr (message e)),
      (''error'', JStr (errorCode e)),
      (''statusCode'', JNum (statusCode e)),
      (''timestamp'', JStr (timestamp e))]"

definition CustomError_toJSON :: "string option \<Rightarrow> customError \<Rightarrow> jsobject" where
  "CustomError_toJSON nodeEnv e =
     spread (baseObject e)
       (if nodeEnv = Some ''development''
        then [(''stack'', JStr (stack e)), (''name'', JStr (customError.name e))]
        else [])"

definition getSuggestions :: "string \<Rightarrow> string list" where
  "getSuggestions resource =
     (if resource = ''Product''
      then [''Check if the product ID is correct'',
            ''Use GET /api/products to list all available products'',
            ''Ensure the product exists and hasn'' @ [CHR 0x27] @ ''t been deleted'']
      else [])
     @ (if resource = ''Route''
        then [''Check the API documentation for valid endpoints'',
              ''Ensure you'' @ [CHR 0x27] @ ''re using the correct HTTP method'',
              ''Verify the URL path is correct'']
        else [])"

definition getHints :: "string \<Rightarrow> string list" where
  "getHints reason =
     (if reason = ''MISSING_API_KEY''
      then [''Add header: X-API-Key: dev-key-12345'',
            ''Include the API key in your request headers'']
      else if reason = ''INVALID_API_KEY''
      then [''Use one of: dev-key-12345, test-key-67890, admin-key-abcdef'',
            ''Check if your API key is spelled correctly'']
      else if reason = ''EXPIRED_API_KEY''
      then [''Contact administrator for a new API key'',
            ''Check if your subscription is still active'']
      else [])"

definition getSolutions :: "string option \<Rightarrow> string option \<Rightarrow> string list" where
  "getSolutions requiredPermission requiredRole =
     (case requiredPermission of
        Some p \<Rightarrow>
          if p \<noteq> []
          then [''Ensure your API key has '' @ [CHR 0x27] @ p @ [CHR 0x27] @ '' permission'',
                ''Contact administrator to upgrade your access level'']
          else []
      | None \<Rightarrow> [])
     @ (case requiredRole of
          Some r \<Rightarrow>
            if r \<noteq> []
            then [''This operation requires '' @ [CHR 0x27] @ r @ [CHR 0x27] @ '' role'',
                  ''Use an API key with appropriate role privileges'']
            else []
        | None \<Rightarrow> [])
     @ [''Check the API documentation for required permissions'']"

definition strings :: "string list \<Rightarrow> json" where
  "strings xs = JArr (map JStr xs)"

definition optional :: "string \<Rightarrow> string option \<Rightarrow> jsobject" where
  "optional key v = (case v of Some x \<Rightarrow> if x \<noteq> [] then [(key, JStr x)] else [] | None \<Rightarrow> [])"

fun toJSON :: "string option \<Rightarrow> taxonomyError \<Rightarrow> jsobject" where
  "toJSON nodeEnv (CustomError b) = CustomError_toJSON nodeEnv b"
| "toJSON nodeEnv (ValidationError b details fld) =
     spread (spread (spread (spread [] (CustomError_toJSON nodeEnv b))
       [(''details'', strings details)])
       (optional ''field'' fld))
       [(''errorType'', JStr ''validation'')]"
| "toJSON nodeEnv (NotFoundError b resource resourceId) =
     spread (spread (spread (spread [] (CustomError_toJSON nodeEnv b))
       [(''resource'', JStr resource)])
       (optional ''resourceId'' resourceId))
       [(''errorType'', JStr ''not_found''), (''suggestions'', strings (getSuggestions resource))]"
| "toJSON nodeEnv (AuthenticationError b reason) =
     spread (spread [] (CustomError_toJSON nodeEnv b))
       [(''reason'', JStr reason), (''errorType'', JStr ''authentication''),
        (''hints'', strings (getHints reason))]"
| "toJSON nodeEnv (AuthorizationError b requiredPermission requiredRole) =
     spread (spread (spread (spread [] (CustomError_toJSON nodeEnv b))
       (optional ''requiredPermission'' requiredPermission))
       (optional ''requiredRole'' requiredRole))
       [(''errorType'', JStr ''authorization''),
        (''solutions'', strings (getSolutions requiredPermission requiredRole))]"

subsection \<open>The factory\<close>

text \<open>
  What can reach the factory is either an object of the taxonomy (\<open>instanceof CustomError\<close>)
  or a foreign error, of which the factory reads \<open>name\<close>, \<open>message\<close>, \<open>statusCode\<close> and \<open>code\<close>.
\<close>

record nativeError =
  name :: string
  message :: string
  statusCode :: "int option"
  code :: "string option"

datatype thrown = Taxonomy taxonomyError | Native nativeError

definition notFound :: "clock \<Rightarrow> string \<Rightarrow> string option \<Rightarrow> taxonomyError" where
  "notFound env resource resourceId = newNotFoundError env resource resourceId"

definition fromNativeError :: "clock \<Rightarrow> thrown \<Rightarrow> taxonomyError" where
  "fromNativeError env err =
     (case err of
        Taxonomy e \<Rightarrow> e
      | Native e \<Rightarrow>
          if nativeError.name e = ''ValidationError''
          then newValidationError env (nativeError.message e) [nativeError.message e] None
          else if nativeError.name e = ''CastError''
          then newValidationError env ''Invalid data format'' [nativeError.message e] None
          else if nativeError.name e = ''SyntaxError'' \<and> str_includes (nativeError.message e) ''JSON''
          then newValidationError env ''Invalid JSON format'' [''Request body must be valid JSON''] None
          else newCustomError env
                 (if nativeError.message e \<noteq> [] then nativeError.message e
                  else ''Internal server error'')
                 (case nativeError.statusCode e of
                    None \<Rightarrow> 500 | Some c \<Rightarrow> if c = 0 then 500 else c)
                 (case nativeError.code e of
                    None \<Rightarrow> ''INTERNAL_ERROR'' | Some c \<Rightarrow> if c = [] then ''INTERNAL_ERROR'' else c))"

section \<open>The query validation middleware\<close>

text \<open>
  \<open>validateProductQuery\<close> runs the four parsers in order and stores their results on the
  request. Whatever one of them throws is caught and passed on as a validation error
  built from its message.
\<close>

definition validation :: "clock \<Rightarrow> string \<Rightarrow> string list \<Rightarrow> string option \<Rightarrow> taxonomyError" where
  "validation env msg details fld = newValidationError env msg details fld"

definition queryError :: "clock \<Rightarrow> error \<Rightarrow> taxonomyError" where
  "queryError env err =
     (case err of
        Error m \<Rightarrow> validation env (''Query validation error: '' @ m) [m] (Some ''query''))"

definition validateProductQuery :: "clock \<Rightarrow> query \<Rightarrow> taxonomyError + request" where
  "validateProductQuery env query =
     (case parsePagination query of
        Inl e \<Rightarrow> Inl (queryError env e)
      | Inr pg \<Rightarrow>
         (case parseFilters query of
            Inl e \<Rightarrow> Inl (queryError env e)
          | Inr fs \<Rightarrow>
             (case parseSearch query of
                Inl e \<Rightarrow> Inl (queryError env e)
              | Inr s \<Rightarrow>
                 (case parseSorting query of
                    Inl e \<Rightarrow> Inl (queryError env e)
                  | Inr so \<Rightarrow>
                      Inr \<lparr>request.pagination = pg, request.filters = fs,
                           request.search = s, sort' = so\<rparr>))))"

section \<open>Notions used in the proofs\<close>

text \<open>
  The type of a value, the key the comparator of \<open>applySorting\<close> compares, and the state
  of a statistics entry that has accumulated at least one product.
\<close>

fun kind :: "jsval \<Rightarrow> nat" where
  "kind (VStr s) = 0"
| "kind (VNum r) = 1"
| "kind (VBool b) = 2"
| "kind VUndefined = 3"

definition sortKey :: "sortSpec \<Rightarrow> product \<Rightarrow> jsval" where
  "sortKey spec p = val_toLowerCase (getField p (field spec))"

definition seen :: "categoryStats \<Rightarrow> bool" where
  "seen s = (isFinite (minPrice s) \<and> isFinite (maxPrice s) \<and> 0 < count s)"

section \<open>Example data\<close>

text \<open>
  Two products, a store that holds them in its first array, and a request. \<open>wholeNumber\<close>
  renders the integer part of a number in decimal; it stands in for the runtime's
  rendering where an example needs one.
\<close>

fun decimal :: "nat \<Rightarrow> string" where
  "decimal n =
     (if n < 10 then [char_of (48 + n)] else decimal (n div 10) @ [char_of (48 + n mod 10)])"

definition wholeNumber :: "rat \<Rightarrow> string" where
  "wholeNumber r = decimal (nat \<lfloor>r\<rfloor>)"

definition laptop :: product where
  "laptop =
     \<lparr>product.id' = ''1'', product.name = ''Laptop Pro'', description = ''Fast'',
      product.price = 1200, product.category = ''electronics'', product.inStock = True,
      createdAt = ''2024-01-15T10:30:00Z'', updatedAt = ''2024-01-15T10:30:00Z''\<rparr>"

definition blocks :: product where
  "blocks =
     \<lparr>product.id' = ''2'', product.name = ''Blocks Pro'', description = ''Toy'',
      product.price = 4999 / 100, product.category = ''toys'', product.inStock = False,
      createdAt = ''2024-01-16T15:25:00Z'', updatedAt = ''2024-01-16T15:25:00Z''\<rparr>"

definition exampleHeap :: heap where
  "exampleHeap = \<lparr>cells = (\<lambda>r. [])(0 := [laptop, blocks]), fresh = 1, calls = []\<rparr>"

definition byName :: sortSpec where
  "byName = \<lparr>field = ''name'', order = ''asc''\<rparr>"

definition firstPage :: pagination where
  "firstPage = \<lparr>pagination.page = 1, pagination.limit = 10, skip = 0, offset = 0\<rparr>"

definition secondOfOne :: pagination where
  "secondOfOne = \<lparr>pagination.page = 2, pagination.limit = 1, skip = 1, offset = 1\<rparr>"

definition exampleRequest :: request where
  "exampleRequest =
     \<lparr>request.pagination = firstPage,
      request.filters =
        \<lparr>filters.category = Some [''toys''], filters.price = None, filters.inStock = None\<rparr>,
      request.search = \<lparr>term' = Some ''pro'', fields' = [''name'', ''description'']\<rparr>,
      sort' = byName\<rparr>"

definition noFilters :: filters where
  "noFilters = \<lparr>filters.category = None, filters.price = None, filters.inStock = None\<rparr>"

definition noSearch :: searchSpec where
  "noSearch = \<lparr>term' = None, fields' = []\<rparr>"

definition newestFirst :: sortSpec where
  "newestFirst = \<lparr>field = ''createdAt'', order = ''desc''\<rparr>"

definition exampleClock :: clock where
  "exampleClock = \<lparr>now = ''2024-02-01T08:00:00.000Z'', trace = ''Error at handler''\<rparr>"

definition laterClock :: clock where
  "laterClock = \<lparr>now = ''2024-02-01T08:00:05.000Z'', trace = ''Error at boundary''\<rparr>"

definition badJson :: nativeError where
  "badJson =
     \<lparr>nativeError.name = ''SyntaxError'',
      nativeError.message = ''Unexpected token } in JSON at position 12'',
      nativeError.statusCode = Some 400, code = None\<rparr>"

section \<open>Properties of the parsers\<close>

subsection \<open>parsePagination\<close>

text \<open>
  In-range numbers are returned with \<open>skip = (page - 1) * limit\<close>, and input that
  \<open>parseInt\<close> cannot read falls back to page 1 and limit 10.
\<close>

lemma parsePagination_in_range:
  assumes "parseInt (toString (query.page qr)) = Some p" "1 \<le> p"
      and "parseInt (toString (query.limit qr)) = Some l" "1 \<le> l" "l \<le> 100"
  shows "parsePagination qr =
           Inr \<lparr>pagination.page = p, pagination.limit = l,
                skip = (p - 1) * l, offset = (p - 1) * l\<rparr>"
  using assms by (simp add: parsePagination_def orDefault_def Let_def)

lemma parsePagination_unparsable:
  assumes "parseInt (toString (query.page qr)) = None"
      and "parseInt (toString (query.limit qr)) = None"
  shows "parsePagination qr =
           Inr \<lparr>pagination.page = 1, pagination.limit = 10, skip = 0, offset = 0\<rparr>"
  using assms by (simp add: parsePagination_def orDefault_def Let_def)

text \<open>
  The function throws exactly on a negative page, a negative limit or a limit above 100.
  Zero is not among them: \<open>parseInt(x) || d\<close> replaces it by the default before the range
  checks run.
\<close>

lemma parsePagination_throws_iff:
  "(\<exists>e. parsePagination qr = Inl e) \<longleftrightarrow>
     (\<exists>p. parseInt (toString (query.page qr)) = Some p \<and> p < 0)
     \<or> (\<exists>l. parseInt (toString (query.limit qr)) = Some l \<and> (l < 0 \<or> 100 < l))"
  by (auto simp: parsePagination_def orDefault_def Let_def split: option.splits if_splits)

text \<open>A rejected query reaches the error handler as a validation error with status 400.\<close>

lemma validateProductQuery_error:
  assumes "validateProductQuery env qr = Inl e"
  shows "customError.statusCode (base e) = 400 \<and> errorCode (base e) = ''VALIDATION_ERROR''"
proof -
  from assms obtain err where "e = queryError env err"
    by (auto simp: validateProductQuery_def split: sum.splits)
  then show ?thesis
    by (cases err) (simp add: queryError_def validation_def newValidationError_def newBase_def)
qed

text \<open>
  C3. The claim: \<open>parsePagination\<close> throws exactly when page or limit is a number out of
  range (page below 1, limit outside 1..100). At \<open>page=0\<close> and at \<open>limit=0\<close> the input is a
  number below 1, and the function does not throw: it returns page 1 and limit 10, the
  answer it gives to input that is not a number, and the middleware accepts the query.
  A page of \<open>-1\<close> is rejected with the message that the page must be greater than 0.
\<close>

theorem parsePagination_zero_defaults:
  "parseInt ''0'' = Some 0
   \<and> parsePagination (emptyQuery\<lparr>query.page := Some (QStr ''0'')\<rparr>)
       = Inr \<lparr>pagination.page = 1, pagination.limit = 10, skip = 0, offset = 0\<rparr>
   \<and> parsePagination (emptyQuery\<lparr>query.limit := Some (QStr ''0'')\<rparr>)
       = Inr \<lparr>pagination.page = 1, pagination.limit = 10, skip = 0, offset = 0\<rparr>
   \<and> parsePagination (emptyQuery\<lparr>query.page := Some (QStr ''-1'')\<rparr>)
       = Inl (Error ''Page number must be greater than 0'')
   \<and> validateProductQuery exampleClock (emptyQuery\<lparr>query.page := Some (QStr ''0'')\<rparr>)
       = Inr \<lparr>request.pagination = firstPage, request.filters = noFilters,
              request.search = noSearch, sort' = newestFirst\<rparr>"
  by code_simp

subsection \<open>parseFilters\<close>

lemma parseBound_valid:
  "parseBound v msg = Inr (Some p) \<Longrightarrow> \<not> isNaN p \<and> \<not> num_lt p (Fin 0)"
  by (auto simp: parseBound_def Let_def split: if_splits)

lemma num_gt_truthy:
  "\<not> isNaN b \<Longrightarrow> \<not> num_lt b (Fin 0) \<Longrightarrow> num_truthy b \<Longrightarrow> num_gt a b \<Longrightarrow> num_truthy a"
  by (cases a; cases b) (auto simp: num_gt_def)

text \<open>
  What the range check does enforce: a returned range whose upper bound is not zero has
  its lower bound at or below it.
\<close>

lemma parseFilters_range_nonzero_max:
  assumes "parseFilters qr = Inr f" "filters.price f = Some pr"
      and "min' pr = Some a" "max' pr = Some b" "num_truthy b"
  shows "\<not> num_gt a b"
proof -
  from assms(1,2) have "parsePrice qr = Inr (Some pr)"
    by (auto simp: parseFilters_def split: sum.splits)
  then obtain mn mx where b:
      "parseBound (query.maxPrice qr) ''maxPrice must be a valid positive number'' = Inr mx"
      "\<not> bothSetAndGreater mn mx" "pr = \<lparr>min' = mn, max' = mx\<rparr>"
    by (auto simp: parsePrice_def split: if_splits sum.splits)
  then have "mn = Some a" "mx = Some b" using assms by auto
  then show ?thesis
    using b parseBound_valid[of "query.maxPrice qr" _ b] num_gt_truthy[of b a] assms(5)
    by auto
qed

text \<open>A minimum above a maximum that is not zero is rejected.\<close>

lemma parseFilters_rejects_nonzero_max_below_min:
  assumes "parseBound (query.minPrice qr) ''minPrice must be a valid positive number'' = Inr (Some a)"
      and "parseBound (query.maxPrice qr) ''maxPrice must be a valid positive number'' = Inr (Some b)"
      and "num_truthy b" "num_gt a b"
  shows "\<exists>e. parseFilters qr = Inl e"
proof -
  have "num_truthy a"
    using assms parseBound_valid[OF assms(2)] num_gt_truthy by blast
  then have g: "bothSetAndGreater (Some a) (Some b)" using assms by simp
  have t: "truthy (query.minPrice qr)"
    using assms(1) by (auto simp: parseBound_def split: if_splits)
  have "parsePrice qr = Inl (Error ''minPrice cannot be greater than maxPrice'')"
    using assms(1,2) g t by (simp add: parsePrice_def)
  then show ?thesis
    by (auto simp: parseFilters_def split: sum.splits)
qed

text \<open>
  C4. The claim: when \<open>minPrice\<close> and \<open>maxPrice\<close> are both present as non-negative numbers
  and the parsed minimum is greater than the parsed maximum, \<open>parseFilters\<close> fails, and no
  returned filter set has a price range with \<open>min > max\<close>. At \<open>minPrice=5\<close>, \<open>maxPrice=0\<close>
  both bounds pass their own checks and the function returns the range from 5 to 0: the
  range check reads \<open>filters.price.max\<close> as a condition, and 0 is falsy. With
  \<open>maxPrice=3\<close> the same minimum is rejected.
\<close>

theorem parseFilters_accepts_zero_max_below_min:
  "parseFilters (emptyQuery\<lparr>query.minPrice := Some (QStr ''5''), query.maxPrice := Some (QStr ''0'')\<rparr>)
     = Inr \<lparr>filters.category = None,
            filters.price = Some \<lparr>min' = Some (Fin 5), max' = Some (Fin 0)\<rparr>,
            filters.inStock = None\<rparr>
   \<and> num_gt (Fin 5) (Fin 0)
   \<and> parseFilters (emptyQuery\<lparr>query.minPrice := Some (QStr ''5''), query.maxPrice := Some (QStr ''3'')\<rparr>)
     = Inl (Error ''minPrice cannot be greater than maxPrice'')"
  by code_simp

subsection \<open>parseSorting\<close>

text \<open>
  C5. The claim: for every query the order is \<open>desc\<close> exactly when \<open>sortOrder\<close> is the
  string \<open>desc\<close>, every other \<open>sortOrder\<close> gives \<open>asc\<close>, and without \<open>sortBy\<close> the result is
  \<open>createdAt\<close>, \<open>desc\<close>. The first part fails without \<open>sortBy\<close>: there \<open>sortOrder\<close> is not read,
  and \<open>sortOrder=asc\<close> still gives \<open>desc\<close>.
\<close>

theorem parseSorting_default_ignores_sortOrder:
  "parseSorting (emptyQuery\<lparr>sortOrder := Some (QStr ''asc'')\<rparr>)
     = Inr \<lparr>field = ''createdAt'', order = ''desc''\<rparr>
   \<and> sortOrder (emptyQuery\<lparr>sortOrder := Some (QStr ''asc'')\<rparr>) \<noteq> Some (QStr ''desc'')"
  by code_simp

text \<open>
  C5, amended. When \<open>sortBy\<close> is one of the six valid fields, \<open>parseSorting\<close> returns that
  field, with order \<open>desc\<close> exactly when \<open>sortOrder\<close> is the string \<open>desc\<close> and order \<open>asc\<close>
  for every other \<open>sortOrder\<close>, absence included. When \<open>sortBy\<close> is absent or empty the
  result is \<open>createdAt\<close>, \<open>desc\<close>, whatever \<open>sortOrder\<close> is. Every returned order is \<open>asc\<close> or
  \<open>desc\<close>.
\<close>

theorem parseSorting_order:
  "(sortBy qr = Some (QStr f) \<and> f \<in> set validSortFields \<longrightarrow>
      (\<exists>r. parseSorting qr = Inr r \<and> field r = f
          \<and> (order r = ''desc'' \<longleftrightarrow> sortOrder qr = Some (QStr ''desc''))
          \<and> (order r = ''asc'' \<longleftrightarrow> sortOrder qr \<noteq> Some (QStr ''desc''))))
   \<and> (\<not> truthy (sortBy qr) \<longrightarrow>
        parseSorting qr = Inr \<lparr>field = ''createdAt'', order = ''desc''\<rparr>)
   \<and> (\<forall>r. parseSorting qr = Inr r \<longrightarrow> order r = ''asc'' \<or> order r = ''desc'')"
  by (auto simp: parseSorting_def validSortFields_def split: option.splits qvalue.splits if_splits)

theorem parseSorting_order_witness:
  "parseSorting (emptyQuery\<lparr>sortBy := Some (QStr ''price''), sortOrder := Some (QStr ''desc'')\<rparr>)
     = Inr \<lparr>field = ''price'', order = ''desc''\<rparr>
   \<and> parseSorting (emptyQuery\<lparr>sortBy := Some (QStr ''price''), sortOrder := Some (QStr ''DESC'')\<rparr>)
     = Inr \<lparr>field = ''price'', order = ''asc''\<rparr>
   \<and> parseSorting (emptyQuery\<lparr>sortBy := Some (QStr ''''), sortOrder := Some (QStr ''asc'')\<rparr>)
     = Inr \<lparr>field = ''createdAt'', order = ''desc''\<rparr>"
proof -
  have v: "''price'' \<in> set validSortFields" by (simp add: validSortFields_def)
  show ?thesis
    using parseSorting_order[of "emptyQuery\<lparr>sortBy := Some (QStr ''price''), sortOrder := Some (QStr ''desc'')\<rparr>" "''price''"]
          parseSorting_order[of "emptyQuery\<lparr>sortBy := Some (QStr ''price''), sortOrder := Some (QStr ''DESC'')\<rparr>" "''price''"]
          parseSorting_order[of "emptyQuery\<lparr>sortBy := Some (QStr ''''), sortOrder := Some (QStr ''asc'')\<rparr>" "''price''"]
          v
    by (auto simp: emptyQuery_def)
qed

subsection \<open>parseSearch\<close>

lemma codeUnit_char_of: "codeUnit (char_of n) = n mod 256"
  by (simp add: codeUnit_def)

lemma lowerChar_fixed: "\<not> isUpperCase c \<Longrightarrow> lowerChar c = c"
  by (simp add: lowerChar_def)

lemma lowerChar_not_upper: "\<not> isUpperCase (lowerChar c)"
proof (cases "isUpperCase c")
  case True
  then have "codeUnit (char_of (codeUnit c + 32)) = codeUnit c + 32"
    by (auto simp: codeUnit_char_of isUpperCase_def)
  then show ?thesis using True by (auto simp: lowerChar_def isUpperCase_def)
next
  case False
  then show ?thesis by (simp add: lowerChar_def)
qed

lemma toLowerCase_idem: "toLowerCase (toLowerCase s) = toLowerCase s"
  by (simp add: toLowerCase_def lowerChar_fixed lowerChar_not_upper)

text \<open>The term that \<open>parseSearch\<close> stores is in lower case and has 2 to 100 characters.\<close>

lemma parseSearch_term:
  assumes "parseSearch qr = Inr s" "term' s = Some t"
  shows "toLowerCase t = t \<and> 2 \<le> length t \<and> length t \<le> 100"
proof -
  from assms obtain x where "t = toLowerCase (trim x)" "\<not> length (trim x) < 2"
      "\<not> 100 < length (trim x)"
    by (auto simp: parseSearch_def Let_def split: if_splits option.splits qvalue.splits)
  then show ?thesis by (simp add: toLowerCase_idem) (simp add: toLowerCase_def)
qed

section \<open>Properties of the transformations\<close>

subsection \<open>applyFilters\<close>

text \<open>Filtering keeps the order and drops nothing when no filter is set.\<close>

lemma applyFilters_empty:
  "applyFilters P \<lparr>filters.category = None, filters.price = None, filters.inStock = None\<rparr> = P"
  by (simp add: applyFilters_def passesFilters_def)

subsection \<open>applySearch\<close>

lemma startsWith_iff: "startsWith s t \<longleftrightarrow> (\<exists>suf. s = t @ suf)"
  by (induction s t rule: startsWith.induct) auto

lemma str_includes_iff: "str_includes s t \<longleftrightarrow> (\<exists>pre suf. s = pre @ t @ suf)"
proof (induction s)
  case Nil
  then show ?case by auto
next
  case (Cons c s)
  show ?case
  proof
    assume "str_includes (c # s) t"
    then consider "startsWith (c # s) t" | "str_includes s t" by auto
    then show "\<exists>pre suf. c # s = pre @ t @ suf"
    proof cases
      case 1
      then obtain suf where "c # s = t @ suf" using startsWith_iff by blast
      then have "c # s = [] @ t @ suf" by simp
      then show ?thesis by blast
    next
      case 2
      then obtain pre suf where "s = pre @ t @ suf" using Cons.IH by blast
      then have "c # s = (c # pre) @ t @ suf" by simp
      then show ?thesis by blast
    qed
  next
    assume "\<exists>pre suf. c # s = pre @ t @ suf"
    then obtain pre suf where e: "c # s = pre @ t @ suf" by blast
    show "str_includes (c # s) t"
    proof (cases pre)
      case Nil
      then have "startsWith (c # s) t" using e startsWith_iff by auto
      then show ?thesis by simp
    next
      case (Cons d pre')
      then have "s = pre' @ t @ suf" using e by simp
      then have "str_includes s t" using Cons.IH by blast
      then show ?thesis by simp
    qed
  qed
qed

lemma applySearch_unset: "\<not> term_set s \<Longrightarrow> applySearch numToString P s = P"
  by (auto simp: applySearch_def term_set_def split: option.splits)

text \<open>
  With a term set, \<open>applySearch\<close> keeps, in their order, the products that have a
  configured field whose value is truthy and whose lower-cased rendering contains the
  term. The term itself is compared as stored.
\<close>

lemma applySearch_set:
  assumes "term' s = Some t" "t \<noteq> []"
  shows "applySearch numToString P s =
           filter (\<lambda>p. \<exists>f \<in> set (searchSpec.fields' s).
                     val_truthy (getField p f)
                     \<and> (\<exists>pre suf. toLowerCase (val_toString numToString (getField p f))
                                    = pre @ t @ suf)) P"
  using assms
  by (simp add: applySearch_def list_ex_iff fieldMatches_def Let_def str_includes_iff)

text \<open>
  C6. The claim: with a term set, \<open>applySearch\<close> returns exactly the products that have a
  configured field whose stringified value contains the term, ignoring case. A product
  that is out of stock has \<open>inStock = false\<close>, which renders as \<open>false\<close> and contains the
  term \<open>false\<close>; searched in the field \<open>inStock\<close> it is not returned, because the value is
  tested for truthiness before it is rendered. A product in stock is found by the term
  \<open>true\<close> in the same field.
\<close>

theorem applySearch_skips_false_value:
  "parseSearch (emptyQuery\<lparr>q := Some (QStr ''false''), query.fields' := Some (QStr ''inStock'')\<rparr>)
     = Inr \<lparr>term' = Some ''false'', fields' = [''inStock'']\<rparr>
   \<and> applySearch wholeNumber [blocks] \<lparr>term' = Some ''false'', fields' = [''inStock'']\<rparr> = []
   \<and> str_includes (toLowerCase (val_toString wholeNumber (getField blocks ''inStock''))) ''false''
   \<and> applySearch wholeNumber [laptop] \<lparr>term' = Some ''true'', fields' = [''inStock'']\<rparr> = [laptop]"
  by code_simp

subsection \<open>Sorting\<close>

lemma insertSorted_mset: "mset (insertSorted cmp x ys) = add_mset x (mset ys)"
  by (induction ys) auto

lemma insertSorted_set: "set (insertSorted cmp x ys) = insert x (set ys)"
  by (induction ys) auto

lemma sortWith_mset: "mset (sortWith cmp xs) = mset xs"
  unfolding sortWith_def by (induction xs) (auto simp: insertSorted_mset)

lemma insertSorted_sorted:
  assumes total: "\<And>a b. cmp a b \<le> 0 \<or> cmp b a \<le> 0"
      and trans: "\<And>a b c. cmp a b \<le> 0 \<Longrightarrow> cmp b c \<le> 0 \<Longrightarrow> cmp a c \<le> 0"
      and "sorted_wrt (\<lambda>a b. cmp a b \<le> 0) ys"
  shows "sorted_wrt (\<lambda>a b. cmp a b \<le> (0::int)) (insertSorted cmp x ys)"
  using assms(3)
proof (induction ys)
  case Nil
  then show ?case by simp
next
  case (Cons y ys)
  show ?case
  proof (cases "cmp x y \<le> 0")
    case True
    then show ?thesis using Cons.prems trans by auto
  next
    case False
    then have "cmp y x \<le> 0" using total by blast
    then show ?thesis using False Cons by (auto simp: insertSorted_set)
  qed
qed

lemma sortWith_sorted:
  assumes total: "\<And>a b. cmp a b \<le> 0 \<or> cmp b a \<le> 0"
      and trans: "\<And>a b c. cmp a b \<le> 0 \<Longrightarrow> cmp b c \<le> 0 \<Longrightarrow> cmp a c \<le> 0"
  shows "sorted_wrt (\<lambda>a b. cmp a b \<le> (0::int)) (sortWith cmp xs)"
proof (induction xs)
  case Nil
  show ?case by (simp add: sortWith_def)
next
  case (Cons x xs)
  have "sorted_wrt (\<lambda>a b. cmp a b \<le> 0) (insertSorted cmp x (sortWith cmp xs))"
    using total trans Cons.IH by (rule insertSorted_sorted)
  then show ?case by (simp add: sortWith_def)
qed

text \<open>
  The comparator of \<open>applySorting\<close> is consistent. Both operands are the same field of
  two products, hence of one type.
\<close>

lemma getField_kind: "kind (getField a f) = kind (getField b f)"
  by (simp add: getField_def)

lemma val_toLowerCase_kind: "kind (val_toLowerCase v) = kind v"
  by (cases v) auto

lemma sortKey_kind: "kind (sortKey spec a) = kind (sortKey spec b)"
  by (simp add: sortKey_def val_toLowerCase_kind getField_kind)

lemma isString_kind: "isString v \<longleftrightarrow> kind v = 0"
  by (cases v) auto

lemma val_gt_asym: "val_gt a b \<Longrightarrow> \<not> val_gt b a"
  by (cases a; cases b) auto

lemma val_not_gt_trans:
  "kind a = kind b \<Longrightarrow> kind b = kind c \<Longrightarrow> \<not> val_gt a b \<Longrightarrow> \<not> val_gt b c \<Longrightarrow> \<not> val_gt a c"
  by (cases a; cases b; cases c) auto

lemma compareProducts_key:
  "compareProducts spec a b =
     (if order spec = ''desc''
      then (if val_gt (sortKey spec b) (sortKey spec a) then 1
            else if val_gt (sortKey spec a) (sortKey spec b) then - 1 else 0)
      else (if val_gt (sortKey spec a) (sortKey spec b) then 1
            else if val_gt (sortKey spec b) (sortKey spec a) then - 1 else 0))"
proof -
  have k: "isString (getField b (field spec)) = isString (getField a (field spec))"
    by (simp add: isString_kind getField_kind[of a _ b])
  have n: "(if isString v then val_toLowerCase v else v) = val_toLowerCase v" for v
    by (cases v) auto
  have "(if isString (getField a (field spec)) then val_toLowerCase (getField b (field spec))
         else getField b (field spec)) = val_toLowerCase (getField b (field spec))"
    using n[of "getField b (field spec)"] k by simp
  then show ?thesis
    by (simp add: compareProducts_def Let_def sortKey_def n val_lt_def)
qed

lemma compareProducts_le:
  "compareProducts spec a b \<le> 0 \<longleftrightarrow>
     (if order spec = ''desc'' then \<not> val_gt (sortKey spec b) (sortKey spec a)
      else \<not> val_gt (sortKey spec a) (sortKey spec b))"
  by (simp add: compareProducts_key)

lemma compareProducts_total:
  "compareProducts spec a b \<le> 0 \<or> compareProducts spec b a \<le> 0"
  using val_gt_asym by (auto simp: compareProducts_le)

lemma compareProducts_trans:
  "compareProducts spec a b \<le> 0 \<Longrightarrow> compareProducts spec b c \<le> 0
     \<Longrightarrow> compareProducts spec a c \<le> 0"
  using val_not_gt_trans[OF sortKey_kind sortKey_kind, of spec a b c]
        val_not_gt_trans[OF sortKey_kind sortKey_kind, of spec c b a]
  by (auto simp: compareProducts_le split: if_splits)

lemma sortedProducts_sorted:
  "sorted_wrt (\<lambda>a b. compareProducts spec a b \<le> 0) (sortedProducts P spec)"
  unfolding sortedProducts_def
  using compareProducts_total compareProducts_trans by (rule sortWith_sorted)

lemma sortedProducts_mset: "mset (sortedProducts P spec) = mset P"
  by (simp add: sortedProducts_def sortWith_mset)

subsection \<open>applyPagination\<close>

lemma slice_nonneg:
  assumes "0 \<le> s" "0 \<le> l"
  shows "slice xs s (s + l) = take (nat l) (drop (nat s) xs)"
proof -
  let ?n = "int (length xs)"
  consider (beyond) "?n \<le> s" | (inside) "s < ?n" "s + l \<le> ?n" | (tail) "s < ?n" "?n < s + l"
    by linarith
  then show ?thesis
  proof cases
    case beyond
    then have "length xs \<le> nat s" by linarith
    then show ?thesis using assms beyond by (simp add: slice_def Let_def)
  next
    case inside
    have "nat (s + l - s) = nat l" by simp
    then show ?thesis using assms inside by (simp add: slice_def Let_def min_def)
  next
    case tail
    have "length (drop (nat s) xs) \<le> nat l" using assms tail by simp
    moreover have "length (drop (nat s) xs) \<le> nat (?n - s)" using assms tail by simp
    ultimately show ?thesis using assms tail by (simp add: slice_def Let_def min_def)
  qed
qed

text \<open>
  C7. For a list of \<open>n\<close> products and a pagination with page at least 1, limit between 1
  and 100 and \<open>skip = (page - 1) * limit\<close>, \<open>applyPagination\<close> returns the slice from \<open>skip\<close>
  to \<open>skip + limit\<close>, which has at most \<open>limit\<close> items; \<open>totalPages\<close> is the ceiling of
  \<open>n / limit\<close>, which is 0 for the empty list; \<open>hasNextPage\<close> holds exactly when
  \<open>skip + limit < n\<close> and \<open>hasPrevPage\<close> exactly when the page is above 1; a page that
  starts at or after the end is empty.
\<close>

theorem applyPagination_page:
  assumes "1 \<le> pagination.page pg"
      and "1 \<le> pagination.limit pg" "pagination.limit pg \<le> 100"
      and "skip pg = (pagination.page pg - 1) * pagination.limit pg"
  shows "data (applyPagination P pg) = take (nat (pagination.limit pg)) (drop (nat (skip pg)) P)
       \<and> int (length (data (applyPagination P pg))) \<le> pagination.limit pg
       \<and> totalPages (page.pagination (applyPagination P pg))
           = Fin (of_int \<lceil>of_nat (length P) / of_int (pagination.limit pg) :: rat\<rceil>)
       \<and> (length P = 0 \<longrightarrow> totalPages (page.pagination (applyPagination P pg)) = Fin 0)
       \<and> (hasNextPage (page.pagination (applyPagination P pg))
            \<longleftrightarrow> skip pg + pagination.limit pg < int (length P))
       \<and> (hasPrevPage (page.pagination (applyPagination P pg)) \<longleftrightarrow> 1 < pagination.page pg)
       \<and> (int (length P) \<le> skip pg \<longrightarrow> data (applyPagination P pg) = [])"
proof -
  have s0: "0 \<le> skip pg" using assms by simp
  have l0: "0 \<le> pagination.limit pg" using assms by simp
  have d: "data (applyPagination P pg) = take (nat (pagination.limit pg)) (drop (nat (skip pg)) P)"
    using slice_nonneg[OF s0 l0] by (simp add: applyPagination_def Let_def)
  have len: "int (length (data (applyPagination P pg))) \<le> pagination.limit pg"
    unfolding d using l0 by simp
  have tp: "totalPages (page.pagination (applyPagination P pg))
              = Fin (of_int \<lceil>of_nat (length P) / of_int (pagination.limit pg) :: rat\<rceil>)"
    using assms by (simp add: applyPagination_def Let_def num_div_def)
  have tp0: "length P = 0 \<longrightarrow> totalPages (page.pagination (applyPagination P pg)) = Fin 0"
    unfolding tp by simp
  have nx: "hasNextPage (page.pagination (applyPagination P pg))
              \<longleftrightarrow> skip pg + pagination.limit pg < int (length P)"
    by (simp add: applyPagination_def Let_def)
  have pv: "hasPrevPage (page.pagination (applyPagination P pg)) \<longleftrightarrow> 1 < pagination.page pg"
    by (simp add: applyPagination_def Let_def)
  have em: "int (length P) \<le> skip pg \<longrightarrow> data (applyPagination P pg) = []"
    unfolding d by simp
  from d len tp tp0 nx pv em show ?thesis by blast
qed

theorem applyPagination_page_witness:
  "data (applyPagination [laptop, blocks] secondOfOne) = [blocks]
   \<and> totalPages (page.pagination (applyPagination [laptop, blocks] secondOfOne)) = Fin 2
   \<and> \<not> hasNextPage (page.pagination (applyPagination [laptop, blocks] secondOfOne))
   \<and> hasPrevPage (page.pagination (applyPagination [laptop, blocks] secondOfOne))
   \<and> data (applyPagination [] firstPage) = []
   \<and> totalPages (page.pagination (applyPagination [] firstPage)) = Fin 0"
proof -
  have a: "1 \<le> pagination.page secondOfOne" "1 \<le> pagination.limit secondOfOne"
      "pagination.limit secondOfOne \<le> 100"
      "skip secondOfOne = (pagination.page secondOfOne - 1) * pagination.limit secondOfOne"
    by (simp_all add: secondOfOne_def)
  have b: "1 \<le> pagination.page firstPage" "1 \<le> pagination.limit firstPage"
      "pagination.limit firstPage \<le> 100"
      "skip firstPage = (pagination.page firstPage - 1) * pagination.limit firstPage"
    by (simp_all add: firstPage_def)
  show ?thesis
    using applyPagination_page[OF a, of "[laptop, blocks]"] applyPagination_page[OF b, of "[]"]
    by (simp add: secondOfOne_def firstPage_def)
qed

section \<open>Properties of the product-listing handler\<close>

lemma search_filter_commute:
  "applySearch numToString (applyFilters P fs) s = applyFilters (applySearch numToString P s) fs"
  by (auto simp: applySearch_def applyFilters_def conj_commute split: option.splits)

lemma listProducts_calls:
  "calls (fst (listProducts numToString h r req)) =
     calls h
     @ (if term_set (request.search req) then [Call ''applySearch'' (cells h r)] else [])
     @ [Call ''applyFilters'' (applySearch numToString (cells h r) (request.search req)),
        Call ''applySorting''
          (applyFilters (applySearch numToString (cells h r) (request.search req))
             (request.filters req)),
        Call ''applyPagination''
          (sortedProducts
             (applyFilters (applySearch numToString (cells h r) (request.search req))
                (request.filters req))
             (sort' req))]"
  by (simp add: listProducts_def alloc_def logCall_def applySearch_ref_def applyFilters_ref_def
      applySorting_def applyPagination_ref_def Let_def applySearch_unset split_beta)

lemma listProducts_page:
  "snd (listProducts numToString h r req) =
     applyPagination
       (sortedProducts
          (applyFilters (applySearch numToString (cells h r) (request.search req))
             (request.filters req))
          (sort' req))
       (request.pagination req)"
  by (simp add: listProducts_def alloc_def logCall_def applySearch_ref_def applyFilters_ref_def
      applySorting_def applyPagination_ref_def Let_def applySearch_unset split_beta)

lemma listProducts_store:
  "r < fresh h \<Longrightarrow> cells (fst (listProducts numToString h r req)) r = cells h r"
  by (simp add: listProducts_def alloc_def logCall_def applySearch_ref_def applyFilters_ref_def
      applySorting_def applyPagination_ref_def Let_def applySearch_unset split_beta)

text \<open>
  C1. The claim: the handler composes filter, then search, then sort, then paginate, so
  that \<open>applySearch\<close> receives the output of \<open>applyFilters\<close>. In the handler the search
  comes first. For the request \<open>q=pro&category=toys\<close> on two products that both match the
  term, \<open>applySearch\<close> is handed both products, while the output of \<open>applyFilters\<close> holds
  one; the history of calls differs from the one the composition order of the
  specification gives.
\<close>

theorem listProducts_searches_before_filtering:
  "handedTo ''applySearch'' (calls (fst (listProducts wholeNumber exampleHeap 0 exampleRequest)))
     = [[laptop, blocks]]
   \<and> applyFilters [laptop, blocks] (request.filters exampleRequest) = [blocks]
   \<and> handedTo ''applyFilters'' (calls (fst (listProducts wholeNumber exampleHeap 0 exampleRequest)))
     = [applySearch wholeNumber [laptop, blocks] (request.search exampleRequest)]
   \<and> calls (fst (listProducts wholeNumber exampleHeap 0 exampleRequest))
     \<noteq> calls exampleHeap @ specOrderCalls wholeNumber (cells exampleHeap 0) exampleRequest"
  by code_simp

text \<open>
  C1, amended. For every product list and every parsed query the handler composes
  search, then filter, then sort, then paginate: \<open>applySearch\<close> is called only when a term
  is set and receives the copy of the collection; \<open>applyFilters\<close> receives the output of
  the search (the copy itself when no term is set); \<open>applySorting\<close> receives the output of
  \<open>applyFilters\<close>; \<open>applyPagination\<close> is applied last, to the sorted sequence. The page
  that results is the page that filter, search, sort, paginate would give.
\<close>

theorem listProducts_pipeline_order:
  "calls (fst (listProducts numToString h r req)) =
     calls h
     @ (if term_set (request.search req) then [Call ''applySearch'' (cells h r)] else [])
     @ [Call ''applyFilters'' (applySearch numToString (cells h r) (request.search req)),
        Call ''applySorting''
          (applyFilters (applySearch numToString (cells h r) (request.search req))
             (request.filters req)),
        Call ''applyPagination''
          (sortedProducts
             (applyFilters (applySearch numToString (cells h r) (request.search req))
                (request.filters req))
             (sort' req))]
   \<and> snd (listProducts numToString h r req) =
       applyPagination
         (sortedProducts
            (applyFilters (applySearch numToString (cells h r) (request.search req))
               (request.filters req))
            (sort' req))
         (request.pagination req)
   \<and> snd (listProducts numToString h r req) =
       applyPagination
         (sortedProducts
            (applySearch numToString (applyFilters (cells h r) (request.filters req))
               (request.search req))
            (sort' req))
         (request.pagination req)"
  using listProducts_calls[of numToString h r req] listProducts_page[of numToString h r req]
  by (simp add: search_filter_commute)

theorem listProducts_pipeline_order_witness:
  "calls (fst (listProducts wholeNumber exampleHeap 0 exampleRequest)) =
     [Call ''applySearch'' [laptop, blocks], Call ''applyFilters'' [laptop, blocks],
      Call ''applySorting'' [blocks], Call ''applyPagination'' [blocks]]
   \<and> data (snd (listProducts wholeNumber exampleHeap 0 exampleRequest)) = [blocks]"
proof -
  have e: "calls exampleHeap = []" "cells exampleHeap 0 = [laptop, blocks]"
      "term_set (request.search exampleRequest)"
    by (simp_all add: exampleHeap_def exampleRequest_def term_set_def)
  have s: "applySearch wholeNumber [laptop, blocks] (request.search exampleRequest)
             = [laptop, blocks]"
    by code_simp
  have f: "applyFilters [laptop, blocks] (request.filters exampleRequest) = [blocks]"
    by code_simp
  have o: "sortedProducts [blocks] (sort' exampleRequest) = [blocks]"
    by (simp add: sortedProducts_def sortWith_def)
  have p: "data (applyPagination [blocks] (request.pagination exampleRequest)) = [blocks]"
    by code_simp
  show ?thesis
    using listProducts_pipeline_order[of wholeNumber exampleHeap 0 exampleRequest]
    by (simp add: e s f o p)
qed

text \<open>
  C2. The claim: \<open>applySorting(P, sort)\<close> returns a sorted sequence and leaves the array
  \<open>P\<close> it was given unchanged. The function calls \<open>sort\<close> on \<open>P\<close> itself: after sorting the
  two example products by name, the array that was passed in holds them in the new
  order.
\<close>

theorem applySorting_changes_argument:
  "cells exampleHeap 0 = [laptop, blocks]
   \<and> cells (fst (applySorting exampleHeap 0 byName)) 0 = [blocks, laptop]
   \<and> snd (applySorting exampleHeap 0 byName) = 0"
  by code_simp

text \<open>
  C2, amended. \<open>applySorting(P, sort)\<close> sorts the array \<open>P\<close> in place and returns that same
  array: afterwards \<open>P\<close> holds a permutation of its former content that is in order for
  the comparator of the sort spec, and every other array is as before. The collection of
  the store is left unchanged by the \<open>GET /api/products\<close> handler, which sorts an array
  of its own.
\<close>

theorem applySorting_sorts_in_place:
  "snd (applySorting h r spec) = r
   \<and> cells (fst (applySorting h r spec)) r = sortedProducts (cells h r) spec
   \<and> mset (cells (fst (applySorting h r spec)) r) = mset (cells h r)
   \<and> sorted_wrt (\<lambda>a b. compareProducts spec a b \<le> 0) (cells (fst (applySorting h r spec)) r)
   \<and> (\<forall>r'. r' \<noteq> r \<longrightarrow> cells (fst (applySorting h r spec)) r' = cells h r')
   \<and> (r < fresh h \<longrightarrow> cells (fst (listProducts numToString h r req)) r = cells h r)"
proof -
  have c: "cells (fst (applySorting h r spec)) r = sortedProducts (cells h r) spec"
    by (simp add: applySorting_def logCall_def Let_def)
  have "snd (applySorting h r spec) = r"
    by (simp add: applySorting_def Let_def)
  moreover have "\<forall>r'. r' \<noteq> r \<longrightarrow> cells (fst (applySorting h r spec)) r' = cells h r'"
    by (simp add: applySorting_def logCall_def Let_def)
  moreover have "mset (cells (fst (applySorting h r spec)) r) = mset (cells h r)"
    unfolding c by (rule sortedProducts_mset)
  moreover have "sorted_wrt (\<lambda>a b. compareProducts spec a b \<le> 0)
                   (cells (fst (applySorting h r spec)) r)"
    unfolding c by (rule sortedProducts_sorted)
  moreover have "r < fresh h \<longrightarrow> cells (fst (listProducts numToString h r req)) r = cells h r"
    using listProducts_store by blast
  ultimately show ?thesis using c by blast
qed

theorem applySorting_sorts_in_place_witness:
  "snd (applySorting exampleHeap 0 byName) = 0
   \<and> cells (fst (applySorting exampleHeap 0 byName)) 0 = [blocks, laptop]
   \<and> cells (fst (applySorting exampleHeap 0 byName)) 1 = cells exampleHeap 1
   \<and> cells (fst (listProducts wholeNumber exampleHeap 0 exampleRequest)) 0 = [laptop, blocks]"
proof -
  have e: "(1::nat) \<noteq> 0" "0 < fresh exampleHeap" "cells exampleHeap 0 = [laptop, blocks]"
    by (simp_all add: exampleHeap_def)
  have s: "sortedProducts [laptop, blocks] byName = [blocks, laptop]"
    by code_simp
  show ?thesis
    using applySorting_sorts_in_place[of exampleHeap 0 byName wholeNumber exampleRequest] e
    by (simp add: s)
qed

section \<open>Properties of the category statistics\<close>

text \<open>
  An entry of the table has seen a product as soon as it exists: the entry is created in
  the iteration that accumulates its first product.
\<close>

lemma isFinite_iff: "isFinite x \<longleftrightarrow> (\<exists>r. x = Fin r)"
  by (cases x) auto

lemma Math_min_Fin: "Math_min (Fin a) (Fin b) = Fin (min a b)"
  by (simp add: Math_min_def min_def)

lemma Math_max_Fin: "Math_max (Fin a) (Fin b) = Fin (max a b)"
  by (simp add: Math_max_def max_def)

lemma seen_accumulate_new: "seen (accumulate p newCategoryStats)"
  by (simp add: seen_def accumulate_def newCategoryStats_def Math_min_def Math_max_def)

lemma seen_accumulate: "seen s \<Longrightarrow> seen (accumulate p s)"
  by (auto simp: seen_def accumulate_def isFinite_iff Math_min_Fin Math_max_Fin)

lemma seen_addProduct:
  assumes "\<forall>(k, v) \<in> set tbl. seen v"
  shows "\<forall>(k, v) \<in> set (addProduct tbl p). seen v"
  using assms
  by (auto simp: addProduct_def updateEntry_def Let_def seen_accumulate seen_accumulate_new
      split: if_splits)

lemma seen_foldl:
  "\<forall>(k, v) \<in> set tbl. seen v \<Longrightarrow> \<forall>(k, v) \<in> set (foldl addProduct tbl ps). seen v"
proof (induction ps arbitrary: tbl)
  case Nil
  then show ?case by simp
next
  case (Cons p ps)
  show ?case using Cons.IH[OF seen_addProduct[OF Cons.prems]] by simp
qed

lemma finalizeCategory_seen:
  assumes "seen s"
  shows "isFinite (minPrice (finalizeCategory s))"
    and "isFinite (maxPrice (finalizeCategory s))"
    and "isFinite (averagePrice (finalizeCategory s))"
    and "\<exists>r. stockPercentage (finalizeCategory s) = Some (Fin r)"
  using assms by (auto simp: seen_def finalizeCategory_def num_div_def isFinite_iff)

lemma finalizeCategory_new:
  "minPrice (finalizeCategory newCategoryStats) = Fin 0"
  "maxPrice (finalizeCategory newCategoryStats) = Fin 0"
  by (simp_all add: finalizeCategory_def newCategoryStats_def)

text \<open>
  C8. For every product list, every entry of the category statistics has a finite
  \<open>minPrice\<close> and a finite \<open>maxPrice\<close>, and its average and stock percentage are finite
  too. An entry that has accumulated nothing still carries the sentinels \<open>Infinity\<close> and
  \<open>-Infinity\<close>; the final pass resolves both to 0.
\<close>

theorem calculateCategoryStats_finite:
  "(\<forall>(c, s) \<in> set (calculateCategoryStats ps).
      isFinite (minPrice s) \<and> isFinite (maxPrice s) \<and> isFinite (averagePrice s)
      \<and> (\<exists>r. stockPercentage s = Some (Fin r)))
   \<and> minPrice newCategoryStats = PosInf \<and> maxPrice newCategoryStats = NegInf
   \<and> minPrice (finalizeCategory newCategoryStats) = Fin 0
   \<and> maxPrice (finalizeCategory newCategoryStats) = Fin 0"
proof -
  have "\<forall>(k, v) \<in> set (foldl addProduct [] ps). seen v"
    by (rule seen_foldl) simp
  then have "\<forall>(c, s) \<in> set (calculateCategoryStats ps).
      isFinite (minPrice s) \<and> isFinite (maxPrice s) \<and> isFinite (averagePrice s)
      \<and> (\<exists>r. stockPercentage s = Some (Fin r))"
    by (auto simp: calculateCategoryStats_def finalizeCategory_seen)
  then show ?thesis
    by (simp add: finalizeCategory_new) (simp add: newCategoryStats_def)
qed

theorem calculateCategoryStats_finite_witness:
  "map fst (calculateCategoryStats [laptop, blocks, laptop]) = [''electronics'', ''toys'']
   \<and> list_all (\<lambda>e. isFinite (minPrice (snd e)) \<and> isFinite (maxPrice (snd e)))
       (calculateCategoryStats [laptop, blocks, laptop])"
proof -
  have k: "map fst (calculateCategoryStats [laptop, blocks, laptop]) = [''electronics'', ''toys'']"
    by code_simp
  show ?thesis
    using calculateCategoryStats_finite[of "[laptop, blocks, laptop]"] k
    by (auto simp: list_all_iff)
qed

section \<open>Properties of the error taxonomy\<close>

lemma map_of_spread_other:
  "k \<notin> fst ` set src \<Longrightarrow> map_of (spread obj src) k = map_of obj k"
  unfolding spread_def
  by (induction src arbitrary: obj) (auto simp: update_conv')

lemma spread_single: "spread obj [(k, v)] = AList.update k v obj"
  by (simp add: spread_def)

lemma optional_keys: "fst ` set (optional key v) \<subseteq> {key}"
  by (auto simp: optional_def split: option.splits if_splits)

lemma spread_CustomError_toJSON:
  "spread [] (CustomError_toJSON nodeEnv e) = CustomError_toJSON nodeEnv e"
  by (simp add: CustomError_toJSON_def baseObject_def spread_def)

lemma CustomError_toJSON_lookup:
  assumes "k \<noteq> ''stack''" "k \<noteq> ''name''"
  shows "map_of (CustomError_toJSON nodeEnv e) k = map_of (baseObject e) k"
  unfolding CustomError_toJSON_def baseObject_def
  using assms by (intro map_of_spread_other) auto

text \<open>No subclass writes one of the five base keys.\<close>

lemma toJSON_base_key:
  assumes "k \<in> {''success'', ''message'', ''error'', ''statusCode'', ''timestamp''}"
  shows "map_of (toJSON nodeEnv e) k = map_of (baseObject (base e)) k"
proof -
  have n: "k \<noteq> ''stack''" "k \<noteq> ''name''" using assms by auto
  have "map_of (toJSON nodeEnv e) k = map_of (CustomError_toJSON nodeEnv (base e)) k"
  proof (cases e)
    case (CustomError b)
    then show ?thesis by simp
  next
    case (ValidationError b d f)
    have "k \<notin> fst ` set (optional ''field'' f)"
      using assms optional_keys[of "''field''" f] by auto
    then show ?thesis
      using assms ValidationError by (auto simp: map_of_spread_other spread_CustomError_toJSON)
  next
    case (NotFoundError b r i)
    have "k \<notin> fst ` set (optional ''resourceId'' i)"
      using assms optional_keys[of "''resourceId''" i] by auto
    then show ?thesis
      using assms NotFoundError by (auto simp: map_of_spread_other spread_CustomError_toJSON)
  next
    case (AuthenticationError b r)
    then show ?thesis
      using assms by (auto simp: map_of_spread_other spread_CustomError_toJSON)
  next
    case (AuthorizationError b p r)
    have "k \<notin> fst ` set (optional ''requiredPermission'' p)"
         "k \<notin> fst ` set (optional ''requiredRole'' r)"
      using assms optional_keys[of "''requiredPermission''" p]
            optional_keys[of "''requiredRole''" r] by auto
    then show ?thesis
      using assms AuthorizationError by (auto simp: map_of_spread_other spread_CustomError_toJSON)
  qed
  then show ?thesis using n by (simp add: CustomError_toJSON_lookup)
qed

lemma toJSON_base:
  "map_of (toJSON nodeEnv e) ''success'' = Some (JBool False)"
  "map_of (toJSON nodeEnv e) ''message'' = Some (JStr (customError.message (base e)))"
  "map_of (toJSON nodeEnv e) ''error'' = Some (JStr (errorCode (base e)))"
  "map_of (toJSON nodeEnv e) ''statusCode'' = Some (JNum (customError.statusCode (base e)))"
  "map_of (toJSON nodeEnv e) ''timestamp'' = Some (JStr (timestamp (base e)))"
  by (simp_all add: toJSON_base_key baseObject_def)

lemma toJSON_resource:
  "map_of (toJSON nodeEnv (NotFoundError b r i)) ''resource'' = Some (JStr r)"
proof -
  have "''resource'' \<notin> fst ` set (optional ''resourceId'' i)"
    using optional_keys[of "''resourceId''" i] by auto
  then show ?thesis
    by (simp add: map_of_spread_other spread_single update_conv')
qed

lemma toJSON_resourceId:
  "i \<noteq> [] \<Longrightarrow> map_of (toJSON nodeEnv (NotFoundError b r (Some i))) ''resourceId'' = Some (JStr i)"
  by (simp add: map_of_spread_other optional_def spread_single update_conv')

lemma notFound_fields:
  "\<exists>b. notFound env resource resourceId = NotFoundError b resource resourceId
        \<and> customError.statusCode b = 404 \<and> errorCode b = ''RESOURCE_NOT_FOUND''"
  by (simp add: notFound_def newNotFoundError_def newBase_def Let_def)

text \<open>
  C9. Every error of the taxonomy renders to an object that has \<open>success\<close> false, the
  message under \<open>message\<close>, the code under \<open>error\<close>, the status under \<open>statusCode\<close> and
  the time of creation under \<open>timestamp\<close>. The error that the factory builds for a
  product id has status 404, code \<open>RESOURCE_NOT_FOUND\<close>, resource \<open>Product\<close> and that id,
  and renders all four; the id, like every route parameter, is not empty.
\<close>

theorem toJSON_structured:
  "map_of (toJSON nodeEnv e) ''success'' = Some (JBool False)
   \<and> map_of (toJSON nodeEnv e) ''message'' = Some (JStr (customError.message (base e)))
   \<and> map_of (toJSON nodeEnv e) ''error'' = Some (JStr (errorCode (base e)))
   \<and> map_of (toJSON nodeEnv e) ''statusCode'' = Some (JNum (customError.statusCode (base e)))
   \<and> map_of (toJSON nodeEnv e) ''timestamp'' = Some (JStr (timestamp (base e)))
   \<and> (\<exists>b. notFound env ''Product'' (Some i) = NotFoundError b ''Product'' (Some i)
          \<and> customError.statusCode b = 404 \<and> errorCode b = ''RESOURCE_NOT_FOUND''
          \<and> map_of (toJSON nodeEnv (NotFoundError b ''Product'' (Some i))) ''statusCode''
              = Some (JNum 404)
          \<and> map_of (toJSON nodeEnv (NotFoundError b ''Product'' (Some i))) ''error''
              = Some (JStr ''RESOURCE_NOT_FOUND'')
          \<and> map_of (toJSON nodeEnv (NotFoundError b ''Product'' (Some i))) ''resource''
              = Some (JStr ''Product'')
          \<and> (i \<noteq> [] \<longrightarrow>
               map_of (toJSON nodeEnv (NotFoundError b ''Product'' (Some i))) ''resourceId''
                 = Some (JStr i)))"
proof -
  obtain b where b: "notFound env ''Product'' (Some i) = NotFoundError b ''Product'' (Some i)"
      "customError.statusCode b = 404" "errorCode b = ''RESOURCE_NOT_FOUND''"
    using notFound_fields by blast
  have "map_of (toJSON nodeEnv (NotFoundError b ''Product'' (Some i))) ''statusCode''
          = Some (JNum 404)"
    using toJSON_base(4)[of nodeEnv "NotFoundError b ''Product'' (Some i)"] b(2) by simp
  moreover have "map_of (toJSON nodeEnv (NotFoundError b ''Product'' (Some i))) ''error''
          = Some (JStr ''RESOURCE_NOT_FOUND'')"
    using toJSON_base(3)[of nodeEnv "NotFoundError b ''Product'' (Some i)"] b(3) by simp
  moreover have "i \<noteq> [] \<longrightarrow>
      map_of (toJSON nodeEnv (NotFoundError b ''Product'' (Some i))) ''resourceId'' = Some (JStr i)"
    using toJSON_resourceId by blast
  ultimately have "\<exists>b. notFound env ''Product'' (Some i) = NotFoundError b ''Product'' (Some i)
          \<and> customError.statusCode b = 404 \<and> errorCode b = ''RESOURCE_NOT_FOUND''
          \<and> map_of (toJSON nodeEnv (NotFoundError b ''Product'' (Some i))) ''statusCode''
              = Some (JNum 404)
          \<and> map_of (toJSON nodeEnv (NotFoundError b ''Product'' (Some i))) ''error''
              = Some (JStr ''RESOURCE_NOT_FOUND'')
          \<and> map_of (toJSON nodeEnv (NotFoundError b ''Product'' (Some i))) ''resource''
              = Some (JStr ''Product'')
          \<and> (i \<noteq> [] \<longrightarrow>
               map_of (toJSON nodeEnv (NotFoundError b ''Product'' (Some i))) ''resourceId''
                 = Some (JStr i))"
    using b toJSON_resource by blast
  then show ?thesis using toJSON_base[of nodeEnv e] by blast
qed

theorem toJSON_structured_witness:
  "map_of (toJSON None (notFound exampleClock ''Product'' (Some ''42''))) ''resourceId''
     = Some (JStr ''42'')
   \<and> map_of (toJSON None (notFound exampleClock ''Product'' (Some ''42''))) ''statusCode''
     = Some (JNum 404)
   \<and> map_of (toJSON None (notFound exampleClock ''Product'' (Some ''42''))) ''success''
     = Some (JBool False)"
proof -
  have n: "''42'' \<noteq> []" by simp
  show ?thesis
    using toJSON_structured[of None "notFound exampleClock ''Product'' (Some ''42'')"
            exampleClock "''42''"] n
    by auto
qed

text \<open>
  C10. The factory returns an error of the taxonomy as it is, so classifying the result
  of a classification changes nothing: the second call returns the very error the first
  one produced, with the time stamp of the first call.
\<close>

theorem fromNativeError_idempotent:
  "fromNativeError env (Taxonomy e) = e
   \<and> fromNativeError env' (Taxonomy (fromNativeError env x)) = fromNativeError env x"
  by (simp add: fromNativeError_def)

theorem fromNativeError_idempotent_witness:
  "fromNativeError laterClock (Taxonomy (fromNativeError exampleClock (Native badJson)))
     = newValidationError exampleClock ''Invalid JSON format''
         [''Request body must be valid JSON''] None"
proof -
  have "fromNativeError exampleClock (Native badJson)
          = newValidationError exampleClock ''Invalid JSON format''
              [''Request body must be valid JSON''] None"
    by code_simp
  then show ?thesis
    using fromNativeError_idempotent[of laterClock "fromNativeError exampleClock (Native badJson)"
            exampleClock "Native badJson"]
    by simp
qed

end
